theory Spec2Isabelle
  imports Main "HOL-Library.Word"
begin

section \<open>The W5500 socket library as seen by the driver\<close>

text \<open>
  The driver talks to the WIZnet ioLibrary (socket, DHCP and DNS modules), which is not
  part of the sources. Every answer of the library is an argument of the function that
  asks for it, and every call that changes the chip is written to a log of
  \<open>ext_call\<close>s returned with the result. Reads of a socket's status register
  (\<open>getsockopt(SO_STATUS)\<close>) are answered by an argument and are not logged.

  The source compares a status only with the named constants below; every other value
  of the register is \<open>SOCK_OTHER\<close>.
\<close>

datatype sock_status = SOCK_CLOSED | SOCK_ESTABLISHED | SOCK_UDP | SOCK_OTHER "8 word"

datatype sock_proto = Sn_MR_TCP | Sn_MR_UDP

datatype sock_flag = Sn_MR_NONE | Sn_MR_MULTI

type_synonym ip4 = "8 word \<times> 8 word \<times> 8 word \<times> 8 word"

type_synonym ptr = "nat option"

datatype CallbackType = linkUp | linkDown | gotIpAddress

text \<open>
  The log: calls of the socket library, of its DHCP and DNS modules, of the heap
  (\<open>new[]\<close> with the pointer it returned, \<open>delete[]\<close> with the pointer it was given)
  and of \<open>callCallbacks\<close> (\<open>Fire t hs\<close>: the registered handlers \<open>hs\<close> called in
  this order with event \<open>t\<close>).
\<close>

datatype ext_call =
    Call_recv "8 word" nat
  | Call_disconnect "8 word"
  | Call_close "8 word"
  | Call_socket "8 word" sock_proto "16 word" sock_flag
  | Call_listen "8 word"
  | Call_connect "8 word" ip4 "16 word"
  | Call_ctlsocket_iomode "8 word"
  | Call_setSn_DIPR "8 word" ip4
  | Call_setSn_DPORT "8 word" "16 word"
  | Call_wizchip_setnetinfo ip4 ip4 ip4 ip4 bool
  | Call_DHCP_init "8 word" ptr
  | Call_DHCP_time_handler
  | Call_DHCP_run
  | Call_DHCP_stop
  | Call_DNS_init "8 word" ptr
  | Call_DNS_run ip4 string
  | Call_DNS_time_handler
  | Heap_new ptr
  | Heap_delete ptr
  | Fire CallbackType "nat list"

text \<open>
  The library takes the socket number as a \<open>uint8_t\<close>; the driver holds it as an
  \<open>int\<close> (\<open>sock_handle_t\<close>, \<open>-1\<close> for no socket). \<open>sn_of\<close> is the conversion at
  the call.
\<close>

definition sn_of :: "int \<Rightarrow> 8 word" where
  "sn_of handle = word_of_int handle"

definition NUM_SOCKETS :: nat where
  "NUM_SOCKETS = 8"

text \<open>
  \<open>socketGetFree\<close>: the loop \<open>for (ii = 0; ii < NUM_SOCKETS; ii++)\<close> over the status
  registers \<open>sr\<close>, returning the first closed socket or \<open>-1\<close>.
\<close>

function socketGetFree_from :: "(nat \<Rightarrow> sock_status) \<Rightarrow> nat \<Rightarrow> int" where
  "socketGetFree_from sr ii =
     (if ii < NUM_SOCKETS
      then (if sr ii = SOCK_CLOSED then int ii else socketGetFree_from sr (Suc ii))
      else -1)"
  by pat_completeness auto
termination
  by (relation "measure (\<lambda>(sr, ii). NUM_SOCKETS - ii)") auto

definition socketGetFree :: "(nat \<Rightarrow> sock_status) \<Rightarrow> int" where
  "socketGetFree sr = socketGetFree_from sr 0"

section \<open>TCPClient\<close>

text \<open>
  \<open>TCPClient::Data\<close>, the connection state shared by the copies of a handle. The array
  \<open>buffer[TCPCLIENT_BUF_MAX_SIZE]\<close> is a list; \<open>arraySize(d_->buffer)\<close> is its length.
  The macro \<open>TCPCLIENT_BUF_MAX_SIZE\<close> is not defined in the sources, so the constructor
  takes it as an argument.
\<close>

record Data =
  d_sock :: int
  d_buffer :: "8 word list"
  d_offset :: "16 word"
  d_total :: "16 word"
  d_remoteIP :: ip4

definition Data_new :: "nat \<Rightarrow> int \<Rightarrow> Data" where
  "Data_new buf_max_size sock =
     \<lparr> d_sock = sock, d_buffer = replicate buf_max_size 0, d_offset = 0, d_total = 0,
       d_remoteIP = (0, 0, 0, 0) \<rparr>"

definition arraySize :: "'a list \<Rightarrow> nat" where
  "arraySize xs = length xs"

definition TCPClient_flush_buffer :: "Data \<Rightarrow> Data" where
  "TCPClient_flush_buffer d = d\<lparr> d_offset := 0, d_total := 0 \<rparr>"

text \<open>\<open>bufferCount\<close>: both cursors are \<open>uint16_t\<close>, promoted to \<open>int\<close> before the subtraction.\<close>

definition bufferCount :: "Data \<Rightarrow> int" where
  "bufferCount d = uint (d_total d) - uint (d_offset d)"

definition TCPClient_isOpen :: "sock_status \<Rightarrow> bool" where
  "TCPClient_isOpen status = (status = SOCK_ESTABLISHED)"

text \<open>
  What \<open>wiznet::recv\<close> leaves in the buffer: the received bytes \<open>bs\<close>, from index
  \<open>i\<close> on. Positions past the end of the array are not part of the model.
\<close>

fun buf_store :: "8 word list \<Rightarrow> nat \<Rightarrow> 8 word list \<Rightarrow> 8 word list" where
  "buf_store b i [] = b"
| "buf_store b i (x # xs) = buf_store (b[i := x]) (Suc i) xs"

text \<open>
  The length \<open>arraySize(d_->buffer) - d_->total\<close> handed to \<open>wiznet::recv\<close>, whose
  length parameter is a \<open>uint16_t\<close>.
\<close>

definition recv_len :: "Data \<Rightarrow> nat" where
  "recv_len d = (arraySize (d_buffer d) - unat (d_total d)) mod 65536"

text \<open>
  \<open>TCPClient::available\<close>. The arguments are the answers of the environment:
  \<open>rdy\<close> is \<open>IsolatedEthernet::instance().ready()\<close>, \<open>status\<close> the status register
  read by \<open>isOpen(sock_handle())\<close>, and \<open>rcv len\<close> the answer of
  \<open>wiznet::recv\<close> asked for \<open>len\<close> bytes: its return value and the bytes it copied.
  The result is the returned count, the new state and the library calls made.
\<close>

definition TCPClient_available ::
  "bool \<Rightarrow> sock_status \<Rightarrow> (nat \<Rightarrow> int \<times> 8 word list) \<Rightarrow> Data \<Rightarrow> int \<times> Data \<times> ext_call list" where
  "TCPClient_available rdy status rcv d =
     (let d1 = (if d_total d \<noteq> 0 \<and> d_offset d = d_total d then TCPClient_flush_buffer d else d)
      in if rdy \<and> TCPClient_isOpen status
         then (if unat (d_total d1) < arraySize (d_buffer d1)
               then (let (ret, bs) = rcv (recv_len d1);
                         d2 = (if ret > 0
                               then d1\<lparr> d_buffer := buf_store (d_buffer d1) (unat (d_total d1)) bs,
                                        d_offset := (if d_total d1 = 0 then 0 else d_offset d1),
                                        d_total := d_total d1 + word_of_int ret \<rparr>
                               else d1)
                     in (bufferCount d2, d2, [Call_recv (sn_of (d_sock d1)) (recv_len d1)]))
               else (bufferCount d1, d1, []))
         else (bufferCount d1, d1, []))"

text \<open>
  \<open>d_->buffer[i]\<close>: reading past the end of the array is undefined behaviour in the
  source, \<open>None\<close> here.
\<close>

definition buffer_at :: "8 word list \<Rightarrow> nat \<Rightarrow> 8 word option" where
  "buffer_at b i = (if i < length b then Some (b ! i) else None)"

text \<open>
  The condition \<open>bufferCount() || available()\<close> of \<open>read\<close> and \<open>peek\<close>:
  \<open>available()\<close> is called only when \<open>bufferCount()\<close> is zero.
\<close>

definition bufferCount_or_available ::
  "bool \<Rightarrow> sock_status \<Rightarrow> (nat \<Rightarrow> int \<times> 8 word list) \<Rightarrow> Data \<Rightarrow> bool \<times> Data \<times> ext_call list" where
  "bufferCount_or_available rdy status rcv d =
     (if bufferCount d \<noteq> 0 then (True, d, [])
      else (let (avail, d1, cs) = TCPClient_available rdy status rcv d
            in (avail \<noteq> 0, d1, cs)))"

definition TCPClient_read ::
  "bool \<Rightarrow> sock_status \<Rightarrow> (nat \<Rightarrow> int \<times> 8 word list) \<Rightarrow> Data
     \<Rightarrow> (int \<times> Data \<times> ext_call list) option" where
  "TCPClient_read rdy status rcv d =
     (let (go, d1, cs) = bufferCount_or_available rdy status rcv d
      in if go
         then (case buffer_at (d_buffer d1) (unat (d_offset d1)) of
                 None \<Rightarrow> None
               | Some b \<Rightarrow> Some (uint b, d1\<lparr> d_offset := d_offset d1 + 1 \<rparr>, cs))
         else Some (-1, d1, cs))"

text \<open>
  \<open>read(buffer, size)\<close>: \<open>size\<close> is a 32-bit \<open>size_t\<close>; the count is
  \<open>(size > (size_t)bufferCount()) ? bufferCount() : size\<close>, and \<open>memcpy\<close> copies that
  many bytes from \<open>offset\<close> on (\<open>None\<close> when they are not all inside the array). The
  second component is what was copied to the caller's buffer.
\<close>

definition TCPClient_read_buf ::
  "bool \<Rightarrow> sock_status \<Rightarrow> (nat \<Rightarrow> int \<times> 8 word list) \<Rightarrow> 32 word \<Rightarrow> Data
     \<Rightarrow> (int \<times> 8 word list \<times> Data \<times> ext_call list) option" where
  "TCPClient_read_buf rdy status rcv sz d =
     (let (go, d1, cs) = bufferCount_or_available rdy status rcv d
      in if go
         then (let n = (if sz > word_of_int (bufferCount d1) then bufferCount d1 else sint sz)
               in if 0 \<le> n \<and> unat (d_offset d1) + nat n \<le> length (d_buffer d1)
                  then Some (n, take (nat n) (drop (unat (d_offset d1)) (d_buffer d1)),
                             d1\<lparr> d_offset := d_offset d1 + word_of_int n \<rparr>, cs)
                  else None)
         else Some (-1, [], d1, cs))"

definition TCPClient_peek ::
  "bool \<Rightarrow> sock_status \<Rightarrow> (nat \<Rightarrow> int \<times> 8 word list) \<Rightarrow> Data
     \<Rightarrow> (int \<times> Data \<times> ext_call list) option" where
  "TCPClient_peek rdy status rcv d =
     (let (go, d1, cs) = bufferCount_or_available rdy status rcv d
      in if go
         then (case buffer_at (d_buffer d1) (unat (d_offset d1)) of
                 None \<Rightarrow> None
               | Some b \<Rightarrow> Some (uint b, d1, cs))
         else Some (-1, d1, cs))"

text \<open>\<open>TCPClient::stop\<close>; the result of \<open>wiznet::disconnect\<close> is only logged by the source.\<close>

definition TCPClient_stop :: "Data \<Rightarrow> Data \<times> ext_call list" where
  "TCPClient_stop d =
     (if d_sock d < 0 then (d, [])
      else (TCPClient_flush_buffer (d\<lparr> d_sock := -1, d_remoteIP := (0, 0, 0, 0) \<rparr>),
            [Call_disconnect (sn_of (d_sock d))]))"

text \<open>
  \<open>TCPClient::connect(IPAddress ip, uint16_t port)\<close>. Answers of the environment:
  \<open>rdy\<close> (\<open>ready()\<close>), \<open>valid\<close> (the Device OS helper \<open>socket_handle_valid\<close>, not in the
  sources), \<open>sr\<close> (the status registers scanned by \<open>socketGetFree\<close>), \<open>socket_res\<close>
  (the \<open>int8_t\<close> result of \<open>wiznet::socket\<close>) and \<open>connect_ok\<close> (whether
  \<open>wiznet::connect\<close> returned \<open>SOCK_OK\<close>). The result is 1 when connected, else 0.
\<close>

definition TCPClient_connect ::
  "bool \<Rightarrow> (int \<Rightarrow> bool) \<Rightarrow> (nat \<Rightarrow> sock_status) \<Rightarrow> int \<Rightarrow> bool \<Rightarrow> ip4 \<Rightarrow> 16 word \<Rightarrow> Data
     \<Rightarrow> int \<times> Data \<times> ext_call list" where
  "TCPClient_connect rdy valid sr socket_res connect_ok ip port d =
     (let (d0, c0) = TCPClient_stop d
      in if rdy
         then (let sock = socketGetFree sr;
                   (d1, c1) = (if sock \<ge> 0
                               then (if socket_res \<ge> 0 then d0\<lparr> d_sock := sock \<rparr> else d0,
                                     [Call_socket (sn_of sock) Sn_MR_TCP port Sn_MR_NONE])
                               else (d0, []))
               in if valid (d_sock d1)
                  then (let d2 = TCPClient_flush_buffer d1;
                            c2 = [Call_connect (sn_of (d_sock d2)) ip port,
                                  Call_ctlsocket_iomode (sn_of (d_sock d2))];
                            d3 = d2\<lparr> d_remoteIP := ip \<rparr>
                        in if \<not> connect_ok
                           then (let (d4, c3) = TCPClient_stop d3 in (0, d4, c0 @ c1 @ c2 @ c3))
                           else (1, d3, c0 @ c1 @ c2))
                  else (0, d1, c0 @ c1))
         else (0, d0, c0))"

text \<open>
  \<open>TCPClient::write(buffer, size, timeout)\<close> (\<open>sz\<close> is its \<open>size\<close>). \<open>busy\<close> is the library constant
  \<open>SOCK_BUSY\<close>; \<open>send k len\<close> is the answer of the \<open>k\<close>-th call of \<open>wiznet::send\<close>
  (whose length argument is a \<open>uint16_t\<close>), \<open>millis k\<close> the clock read by the \<open>k\<close>-th
  evaluation of the loop condition, \<open>start\<close> the clock read before the loop. The loop
  returns the final value of \<open>ret\<close>, the write error set by \<open>setWriteError\<close> (0 after
  \<open>clearWriteError\<close>) and the number of calls of \<open>send\<close>. The loop need not end:
  \<open>None\<close> is a call that never returns.
\<close>

partial_function (option) TCPClient_write_loop ::
  "int \<Rightarrow> (nat \<Rightarrow> 16 word \<Rightarrow> int) \<Rightarrow> (nat \<Rightarrow> 32 word) \<Rightarrow> 32 word \<Rightarrow> 32 word \<Rightarrow> 32 word
     \<Rightarrow> nat \<Rightarrow> 32 word \<Rightarrow> (int \<times> int \<times> nat) option" where
  "TCPClient_write_loop busy send millis start sz timeout k offset =
     (let ret = send k (ucast (sz - offset))
      in if ret > 0
         then (let offset' = offset + word_of_int ret
               in if offset' = sz then Some (sint sz, 0, Suc k)
                  else if timeout \<noteq> 0 \<and> millis k - start < timeout
                       then TCPClient_write_loop busy send millis start sz timeout (Suc k) offset'
                       else Some (ret, 0, Suc k))
         else if ret \<noteq> busy then Some (ret, ret, Suc k)
         else if timeout \<noteq> 0 \<and> millis k - start < timeout
              then TCPClient_write_loop busy send millis start sz timeout (Suc k) offset
              else Some (ret, 0, Suc k))"

text \<open>The \<open>int ret\<close> is returned as the 32-bit unsigned \<open>size_t\<close>.\<close>

definition TCPClient_write ::
  "int \<Rightarrow> (nat \<Rightarrow> 16 word \<Rightarrow> int) \<Rightarrow> (nat \<Rightarrow> 32 word) \<Rightarrow> 32 word \<Rightarrow> 32 word \<Rightarrow> 32 word
     \<Rightarrow> (32 word \<times> int \<times> nat) option" where
  "TCPClient_write busy send millis start sz timeout =
     (case TCPClient_write_loop busy send millis start sz timeout 0 0 of
        None \<Rightarrow> None
      | Some (ret, err, sends) \<Rightarrow> Some (word_of_int ret, err, sends))"

text \<open>
  The invariant of the connection state, \<open>offset \<le> total \<le> capacity\<close>, where the
  capacity is the size of the buffer array; the cursors are unsigned, so
  \<open>0 \<le> offset\<close> is no condition.
\<close>

definition buffer_inv :: "nat \<Rightarrow> Data \<Rightarrow> bool" where
  "buffer_inv capacity d =
     (unat (d_offset d) \<le> unat (d_total d) \<and> unat (d_total d) \<le> capacity
      \<and> arraySize (d_buffer d) = capacity)"

text \<open>
  The contract of \<open>wiznet::recv\<close> that the driver relies on: it never returns more
  than the length it was asked for.
\<close>

definition recv_within_len :: "(nat \<Rightarrow> int \<times> 8 word list) \<Rightarrow> bool" where
  "recv_within_len rcv = (\<forall>len. fst (rcv len) \<le> int len)"

section \<open>The IsolatedEthernet singleton\<close>

datatype DhcpState =
  NOT_USED | ATTEMPT | IN_PROGRESS | GOT_ADDRESS | CLEANUP | CLEANUP_DISABLE | DONE

text \<open>
  The fields of the singleton that the address state machine and the resolver use. The
  registered callbacks are opaque user functions: \<open>callbacks\<close> lists them by a number,
  in registration order. \<open>lastDhcpCheck\<close> and \<open>lastDnsCheck\<close> are the static locals
  of \<open>stateMachine\<close>.
\<close>

record IsolatedEthernet =
  ipAddr :: ip4
  subnetMaskArray :: ip4
  gatewayAddr :: ip4
  dnsAddr :: ip4
  setupDone :: bool
  phyLink :: bool
  isReady :: bool
  dhcpState :: DhcpState
  dhcpBuffer :: ptr
  dnsBuffer :: ptr
  callbacks :: "nat list"
  lastDhcpCheck :: "32 word"
  lastDnsCheck :: "32 word"

definition ready :: "IsolatedEthernet \<Rightarrow> bool" where
  "ready s = isReady s"

definition localIP :: "IsolatedEthernet \<Rightarrow> ip4" where
  "localIP s = ipAddr s"

text \<open>The test \<open>ipAddr[0] != 0 || ipAddr[1] != 0 || ipAddr[2] != 0 || ipAddr[3] != 0\<close>.\<close>

fun ip_nonzero :: "ip4 \<Rightarrow> bool" where
  "ip_nonzero (a0, a1, a2, a3) = (a0 \<noteq> 0 \<or> a1 \<noteq> 0 \<or> a2 \<noteq> 0 \<or> a3 \<noteq> 0)"

definition callCallbacks :: "CallbackType \<Rightarrow> IsolatedEthernet \<Rightarrow> ext_call list" where
  "callCallbacks t s = [Fire t (callbacks s)]"

definition withStaticIP :: "IsolatedEthernet \<Rightarrow> IsolatedEthernet" where
  "withStaticIP s =
     (case dhcpState s of
        IN_PROGRESS \<Rightarrow> s\<lparr> dhcpState := CLEANUP_DISABLE \<rparr>
      | GOT_ADDRESS \<Rightarrow> s\<lparr> dhcpState := CLEANUP_DISABLE \<rparr>
      | _ \<Rightarrow> s\<lparr> dhcpState := NOT_USED \<rparr>)"


text \<open>
  \<open>updateAddressSettings\<close>: pushes the four addresses to the chip and reads the PHY link
  once more (\<open>curPhyLink\<close> is that answer).
\<close>

definition updateAddressSettings :: "bool \<Rightarrow> IsolatedEthernet \<Rightarrow> IsolatedEthernet \<times> ext_call list" where
  "updateAddressSettings curPhyLink s =
     ((if curPhyLink then s\<lparr> isReady := True \<rparr> else s),
      [Call_wizchip_setnetinfo (ipAddr s) (subnetMaskArray s) (gatewayAddr s) (dnsAddr s)
         (dhcpState s \<noteq> NOT_USED)])"

text \<open>The lease held by the DHCP module, read by \<open>getIPfromDHCP\<close> and its siblings.\<close>

record lease =
  lease_ip :: ip4
  lease_sn :: ip4
  lease_gw :: ip4
  lease_dns :: ip4

definition updateAddressSettingsFromDHCP ::
  "lease \<Rightarrow> bool \<Rightarrow> IsolatedEthernet \<Rightarrow> IsolatedEthernet \<times> ext_call list" where
  "updateAddressSettingsFromDHCP l curPhyLink s =
     updateAddressSettings curPhyLink
       (s\<lparr> ipAddr := lease_ip l, subnetMaskArray := lease_sn l, gatewayAddr := lease_gw l,
           dnsAddr := lease_dns l \<rparr>)"

text \<open>The three callbacks that \<open>setup\<close> registers with \<open>reg_dhcp_cbfunc\<close>.\<close>

definition ip_assign :: "lease \<Rightarrow> bool \<Rightarrow> IsolatedEthernet \<Rightarrow> IsolatedEthernet \<times> ext_call list" where
  "ip_assign l curPhyLink s =
     (let (s1, cs) = updateAddressSettingsFromDHCP l curPhyLink s
      in (s1\<lparr> dhcpState := GOT_ADDRESS \<rparr>, cs))"

definition ip_update :: "lease \<Rightarrow> bool \<Rightarrow> IsolatedEthernet \<Rightarrow> IsolatedEthernet \<times> ext_call list" where
  "ip_update l curPhyLink s = updateAddressSettingsFromDHCP l curPhyLink s"

definition ip_conflict :: "IsolatedEthernet \<Rightarrow> IsolatedEthernet \<times> ext_call list" where
  "ip_conflict s = (s, [])"

text \<open>
  What one call of \<open>DHCP_run\<close> does to the singleton: it may invoke one of the registered
  callbacks, with the lease it holds.
\<close>

datatype dhcp_event = No_callback | Ip_assign lease | Ip_update lease | Ip_conflict

definition DHCP_run ::
  "dhcp_event \<Rightarrow> bool \<Rightarrow> IsolatedEthernet \<Rightarrow> IsolatedEthernet \<times> ext_call list" where
  "DHCP_run ev curPhyLink s =
     (let (s1, cs) = (case ev of
                        No_callback \<Rightarrow> (s, [])
                      | Ip_assign l \<Rightarrow> ip_assign l curPhyLink s
                      | Ip_update l \<Rightarrow> ip_update l curPhyLink s
                      | Ip_conflict \<Rightarrow> ip_conflict s)
      in (s1, Call_DHCP_run # cs))"

text \<open>
  The answers of the environment during one call of \<open>stateMachine\<close>: the PHY link read
  at its start, the clock, the status registers scanned by \<open>socketGetFree\<close>, the pointer
  returned by \<open>new uint8_t[548]\<close>, what \<open>DHCP_run\<close> does, and the PHY link read inside
  a lease callback.
\<close>

record tick =
  wizphy_link_on :: bool
  millis_now :: "32 word"
  status_regs :: "nat \<Rightarrow> sock_status"
  new_dhcpBuffer :: ptr
  dhcp_run_event :: dhcp_event
  wizphy_link_on_in_callback :: bool

text \<open>First part of \<open>stateMachine\<close>: the PHY link edge.\<close>

definition linkEdge :: "bool \<Rightarrow> IsolatedEthernet \<Rightarrow> IsolatedEthernet \<times> ext_call list" where
  "linkEdge curPhyLink s =
     (if curPhyLink \<noteq> phyLink s
      then (if curPhyLink
            then (let c1 = callCallbacks linkUp s;
                      (s1, c2) = (case dhcpState s of
                                    NOT_USED \<Rightarrow>
                                      (if ip_nonzero (ipAddr s)
                                       then (s\<lparr> isReady := True \<rparr>, callCallbacks gotIpAddress s)
                                       else (s, []))
                                  | _ \<Rightarrow> (s, []))
                  in (s1\<lparr> phyLink := curPhyLink \<rparr>, c1 @ c2))
            else (s\<lparr> isReady := False, phyLink := curPhyLink \<rparr>, callCallbacks linkDown s))
      else (s, []))"

text \<open>Second part: the \<open>switch (dhcpState)\<close>.\<close>

definition dhcpSwitch :: "tick \<Rightarrow> IsolatedEthernet \<Rightarrow> IsolatedEthernet \<times> ext_call list" where
  "dhcpSwitch e s =
     (case dhcpState s of
        ATTEMPT \<Rightarrow>
          (if phyLink s
           then (let (s1, c1) = (if dhcpBuffer s = None
                                 then (s\<lparr> dhcpBuffer := new_dhcpBuffer e \<rparr>, [Heap_new (new_dhcpBuffer e)])
                                 else (s, []));
                     dhcpSocket = socketGetFree (status_regs e)
                 in if dhcpSocket \<ge> 0
                    then (s1\<lparr> dhcpState := IN_PROGRESS \<rparr>, c1 @ [Call_DHCP_init (sn_of dhcpSocket) (dhcpBuffer s1)])
                    else (s1\<lparr> dhcpState := DONE \<rparr>, c1))
           else (s, []))
      | IN_PROGRESS \<Rightarrow>
          (let (s1, c1) = (if millis_now e - lastDhcpCheck s \<ge> 1000
                           then (s\<lparr> lastDhcpCheck := millis_now e \<rparr>, [Call_DHCP_time_handler])
                           else (s, []));
               (s2, c2) = DHCP_run (dhcp_run_event e) (wizphy_link_on_in_callback e) s1
           in ((if \<not> phyLink s2 then s2\<lparr> dhcpState := CLEANUP \<rparr> else s2), c1 @ c2))
      | GOT_ADDRESS \<Rightarrow> (s\<lparr> dhcpState := CLEANUP \<rparr>, callCallbacks gotIpAddress s)
      | CLEANUP_DISABLE \<Rightarrow>
          (s\<lparr> dhcpBuffer := None, dhcpState := NOT_USED \<rparr>, [Call_DHCP_stop, Heap_delete (dhcpBuffer s)])
      | CLEANUP \<Rightarrow>
          (s\<lparr> dhcpBuffer := None, dhcpState := DONE \<rparr>, [Call_DHCP_stop, Heap_delete (dhcpBuffer s)])
      | DONE \<Rightarrow> ((if \<not> phyLink s then s\<lparr> dhcpState := ATTEMPT \<rparr> else s), [])
      | NOT_USED \<Rightarrow> (s, []))"

text \<open>Third part: the once-per-second DNS timer, while \<open>dnsBuffer\<close> is not null.\<close>

definition dnsTimer :: "32 word \<Rightarrow> IsolatedEthernet \<Rightarrow> IsolatedEthernet \<times> ext_call list" where
  "dnsTimer now s =
     (if dnsBuffer s \<noteq> None \<and> now - lastDnsCheck s \<ge> 1000
      then (s\<lparr> lastDnsCheck := now \<rparr>, [Call_DNS_time_handler])
      else (s, []))"

definition stateMachine :: "tick \<Rightarrow> IsolatedEthernet \<Rightarrow> IsolatedEthernet \<times> ext_call list" where
  "stateMachine e s =
     (let (s1, c1) = linkEdge (wizphy_link_on e) s;
          (s2, c2) = dhcpSwitch e s1;
          (s3, c3) = dnsTimer (millis_now e) s2
      in (s3, c1 @ c2 @ c3))"

text \<open>
  \<open>threadFunction\<close> calls \<open>stateMachine\<close> once per iteration when \<open>setupDone\<close> is
  set; here over a finite list of iterations, each with its answers.
\<close>

fun threadFunction :: "tick list \<Rightarrow> IsolatedEthernet \<Rightarrow> IsolatedEthernet \<times> ext_call list" where
  "threadFunction [] s = (s, [])"
| "threadFunction (e # es) s =
     (let (s1, c1) = (if setupDone s then stateMachine e s else (s, []));
          (s2, c2) = threadFunction es s1
      in (s2, c1 @ c2))"

text \<open>
  The transition table of the address state machine in the words of the
  specification (section 4.2), for one tick: from the state, whether the link is up,
  whether a hardware slot is free, and whether the lease callback fired.
\<close>

fun spec_dhcp_transition :: "DhcpState \<Rightarrow> bool \<Rightarrow> bool \<Rightarrow> bool \<Rightarrow> DhcpState" where
  "spec_dhcp_transition NOT_USED link slot lease = NOT_USED"
| "spec_dhcp_transition ATTEMPT link slot lease =
     (if link then (if slot then IN_PROGRESS else DONE) else ATTEMPT)"
| "spec_dhcp_transition IN_PROGRESS link slot lease =
     (if \<not> link then CLEANUP else if lease then GOT_ADDRESS else IN_PROGRESS)"
| "spec_dhcp_transition GOT_ADDRESS link slot lease = CLEANUP"
| "spec_dhcp_transition CLEANUP link slot lease = DONE"
| "spec_dhcp_transition CLEANUP_DISABLE link slot lease = NOT_USED"
| "spec_dhcp_transition DONE link slot lease = (if link then DONE else ATTEMPT)"

text \<open>What is observed of a tick and of a log.\<close>

fun is_assign :: "dhcp_event \<Rightarrow> bool" where
  "is_assign (Ip_assign l) = True"
| "is_assign ev = False"


fun fires :: "CallbackType \<Rightarrow> ext_call \<Rightarrow> bool" where
  "fires t (Fire t' hs) = (t = t')"
| "fires t c = False"

definition dhcp_after :: "tick list \<Rightarrow> IsolatedEthernet \<Rightarrow> DhcpState" where
  "dhcp_after es s = dhcpState (fst (threadFunction es s))"


definition fired_count :: "CallbackType \<Rightarrow> ext_call list \<Rightarrow> nat" where
  "fired_count t cs = length (filter (fires t) cs)"

definition lease_count :: "tick list \<Rightarrow> nat" where
  "lease_count es = length (filter (\<lambda>e. is_assign (dhcp_run_event e)) es)"

text \<open>
  \<open>inet_gethostbyname\<close>. Answers of the environment: \<open>alloc\<close>, the pointer returned by
  \<open>new uint8_t[MAX_DNS_BUF_SIZE]\<close>; \<open>sr\<close>, the status registers scanned by
  \<open>socketGetFree\<close>; \<open>winRes\<close> and \<open>resolved\<close>, the result of \<open>DNS_run\<close> and the
  address it wrote. \<open>out_ip_addr\<close> is the caller's variable, returned as the second
  component. The pointer \<open>dnsBuffer\<close> keeps its value after \<open>delete[]\<close>.
  \<open>inet_gethostbyname_query\<close> is the function from \<open>socketGetFree\<close> on.
\<close>

definition inet_gethostbyname_query ::
  "(nat \<Rightarrow> sock_status) \<Rightarrow> int \<Rightarrow> ip4 \<Rightarrow> string \<Rightarrow> ip4 \<Rightarrow> IsolatedEthernet
     \<Rightarrow> int \<times> ip4 \<times> IsolatedEthernet \<times> ext_call list" where
  "inet_gethostbyname_query sr winRes resolved hostname out_ip_addr s =
     (let dnsSocket = socketGetFree sr;
          (res, out, cs) =
            (if dnsSocket \<ge> 0
             then (let cs = [Call_DNS_init (sn_of dnsSocket) (dnsBuffer s),
                             Call_DNS_run (dnsAddr s) hostname]
                   in if winRes = 1 then (0, resolved, cs) else (-1, out_ip_addr, cs))
             else (-1, out_ip_addr, []))
      in (res, out, s, cs @ [Heap_delete (dnsBuffer s)]))"

definition inet_gethostbyname ::
  "ptr \<Rightarrow> (nat \<Rightarrow> sock_status) \<Rightarrow> int \<Rightarrow> ip4 \<Rightarrow> string \<Rightarrow> ip4 \<Rightarrow> IsolatedEthernet
     \<Rightarrow> int \<times> ip4 \<times> IsolatedEthernet \<times> ext_call list" where
  "inet_gethostbyname alloc sr winRes resolved hostname out_ip_addr s =
     (if dnsBuffer s = None
      then (let s1 = s\<lparr> dnsBuffer := alloc \<rparr>
            in if dnsBuffer s1 = None then (-1, out_ip_addr, s1, [Heap_new alloc])
               else (let (res, out, s2, cs) =
                           inet_gethostbyname_query sr winRes resolved hostname out_ip_addr s1
                     in (res, out, s2, Heap_new alloc # cs)))
      else inet_gethostbyname_query sr winRes resolved hostname out_ip_addr s)"

text \<open>
  The heap as the log shows it: \<open>heap_replay live cs\<close> follows the calls \<open>cs\<close> from
  the set \<open>live\<close> of allocated blocks and returns the blocks live at the end, or
  \<open>None\<close> when a block that is not live is handed to the DHCP or DNS module or to
  \<open>delete[]\<close> (\<open>delete[]\<close> of a null pointer does nothing).
\<close>

fun heap_replay :: "nat list \<Rightarrow> ext_call list \<Rightarrow> nat list option" where
  "heap_replay live [] = Some live"
| "heap_replay live (Heap_new None # cs) = heap_replay live cs"
| "heap_replay live (Heap_new (Some a) # cs) = heap_replay (a # live) cs"
| "heap_replay live (Heap_delete None # cs) = heap_replay live cs"
| "heap_replay live (Heap_delete (Some a) # cs) =
     (if a \<in> set live then heap_replay (removeAll a live) cs else None)"
| "heap_replay live (Call_DNS_init sn (Some a) # cs) =
     (if a \<in> set live then heap_replay live cs else None)"
| "heap_replay live (Call_DHCP_init sn (Some a) # cs) =
     (if a \<in> set live then heap_replay live cs else None)"
| "heap_replay live (c # cs) = heap_replay live cs"

text \<open>
  \<open>TCPClient::connect(const char *host, uint16_t port)\<close>, with the answers that
  \<open>inet_gethostbyname\<close> and \<open>connect(IPAddress, port)\<close> take; \<open>halIpAddress\<close> is the
  uninitialised local variable handed to the resolver.
\<close>

definition TCPClient_connect_host ::
  "ptr \<Rightarrow> (nat \<Rightarrow> sock_status) \<Rightarrow> int \<Rightarrow> ip4 \<Rightarrow> ip4
     \<Rightarrow> (int \<Rightarrow> bool) \<Rightarrow> (nat \<Rightarrow> sock_status) \<Rightarrow> int \<Rightarrow> bool \<Rightarrow> string \<Rightarrow> 16 word
     \<Rightarrow> IsolatedEthernet \<Rightarrow> Data \<Rightarrow> int \<times> Data \<times> IsolatedEthernet \<times> ext_call list" where
  "TCPClient_connect_host alloc dns_sr winRes resolved halIpAddress
       valid sr socket_res connect_ok host port eth d =
     (let (d0, c0) = TCPClient_stop d
      in if ready eth
         then (let (res, ip_addr, eth1, c1) =
                     inet_gethostbyname alloc dns_sr winRes resolved host halIpAddress eth
               in if res = 0
                  then (let (r, d1, c2) =
                              TCPClient_connect (ready eth1) valid sr socket_res connect_ok ip_addr port d0
                        in (r, d1, eth1, c0 @ c1 @ c2))
                  else (0, d0, eth1, c0 @ c1))
         else (0, d0, eth, c0))"

section \<open>TCPServer\<close>

text \<open>
  The server's \<open>_client\<close> is a handle on a \<open>TCPClient::Data\<close>; the record holds that
  state itself.
\<close>

record TCPServer =
  s_port :: "16 word"
  s_sock :: int
  s_client :: Data

definition TCPServer_stop :: "TCPServer \<Rightarrow> TCPServer \<times> ext_call list" where
  "TCPServer_stop srv =
     (let (d, c1) = TCPClient_stop (s_client srv);
          c2 = (if s_sock srv \<ge> 0 then [Call_disconnect (sn_of (s_sock srv))] else [])
      in (srv\<lparr> s_client := d, s_sock := -1 \<rparr>, c1 @ c2))"

text \<open>
  \<open>startListener\<close>; \<open>socket_res\<close> is the result of \<open>wiznet::socket\<close> and
  \<open>listen_ok\<close> says whether \<open>wiznet::listen\<close> returned \<open>SOCK_OK\<close>.
\<close>

definition startListener ::
  "(nat \<Rightarrow> sock_status) \<Rightarrow> int \<Rightarrow> bool \<Rightarrow> TCPServer \<Rightarrow> bool \<times> TCPServer \<times> ext_call list" where
  "startListener sr socket_res listen_ok srv =
     (let sock = socketGetFree sr
      in if sock \<ge> 0
         then (if socket_res \<ge> 0
               then (let srv1 = srv\<lparr> s_sock := sock \<rparr>
                     in (listen_ok, srv1,
                         [Call_socket (sn_of sock) Sn_MR_TCP (s_port srv) Sn_MR_NONE,
                          Call_listen (sn_of (s_sock srv1))]))
               else (False, srv, [Call_socket (sn_of sock) Sn_MR_TCP (s_port srv) Sn_MR_NONE]))
         else (False, srv, []))"

definition TCPServer_begin ::
  "(int \<Rightarrow> bool) \<Rightarrow> bool \<Rightarrow> (nat \<Rightarrow> sock_status) \<Rightarrow> int \<Rightarrow> bool \<Rightarrow> TCPServer
     \<Rightarrow> bool \<times> TCPServer \<times> ext_call list" where
  "TCPServer_begin valid rdy sr socket_res listen_ok srv =
     (let (srv1, c1) = TCPServer_stop srv
      in if valid (s_sock srv1) then (True, srv1, c1)
         else if rdy
              then (let (r, srv2, c2) = startListener sr socket_res listen_ok srv1
                    in (r, srv2, c1 @ c2))
              else (False, srv1, c1))"

section \<open>UDP\<close>

record UDP =
  u_sock :: int
  u_port :: "16 word"
  u_remoteIP :: ip4
  u_remotePort :: "16 word"
  u_offset :: "32 word"
  u_total :: "32 word"

definition UDP_isOpen :: "sock_status \<Rightarrow> bool" where
  "UDP_isOpen status = (status = SOCK_UDP)"

definition UDP_flush_buffer :: "UDP \<Rightarrow> UDP" where
  "UDP_flush_buffer u = u\<lparr> u_offset := 0, u_total := 0 \<rparr>"

text \<open>\<open>UDP::stop\<close>; \<open>status\<close> is the status register read by \<open>isOpen(_sock)\<close>.\<close>

definition UDP_stop :: "sock_status \<Rightarrow> UDP \<Rightarrow> UDP \<times> ext_call list" where
  "UDP_stop status u =
     (UDP_flush_buffer (u\<lparr> u_sock := -1 \<rparr>),
      (if UDP_isOpen status then [Call_close (sn_of (u_sock u))] else []))"

text \<open>
  \<open>UDP::begin(port)\<close>; \<open>status\<close> is read by the \<open>stop()\<close> it starts with, \<open>sr\<close>
  are the registers scanned by \<open>socketGetFree\<close> after it, \<open>socket_res\<close> is the result
  of \<open>wiznet::socket\<close>. The result is the \<open>uint8_t\<close> made from \<open>bool result\<close>.
\<close>

definition UDP_begin ::
  "sock_status \<Rightarrow> (nat \<Rightarrow> sock_status) \<Rightarrow> int \<Rightarrow> 16 word \<Rightarrow> UDP \<Rightarrow> 8 word \<times> UDP \<times> ext_call list" where
  "UDP_begin status sr socket_res port u =
     (let (u1, c1) = UDP_stop status u;
          sock = socketGetFree sr
      in if sock \<ge> 0
         then (let c2 = [Call_socket (sn_of sock) Sn_MR_UDP port Sn_MR_NONE]
               in if socket_res \<ge> 0
                  then (1, u1\<lparr> u_sock := sock, u_port := port \<rparr>, c1 @ c2)
                  else (0, u1, c1 @ c2))
         else (0, u1, c1))"

text \<open>
  \<open>UDP::joinMulticast(ip)\<close>; \<open>status\<close> is read by its own \<open>isOpen(_sock)\<close>,
  \<open>status_stop\<close> by the one in \<open>stop()\<close>.
\<close>

definition UDP_joinMulticast ::
  "sock_status \<Rightarrow> sock_status \<Rightarrow> (nat \<Rightarrow> sock_status) \<Rightarrow> int \<Rightarrow> ip4 \<Rightarrow> UDP
     \<Rightarrow> int \<times> UDP \<times> ext_call list" where
  "UDP_joinMulticast status status_stop sr socket_res ip u =
     (if \<not> UDP_isOpen status then (-1, u, [])
      else (let (u1, c1) = UDP_stop status_stop u;
                sock = socketGetFree sr
            in if sock \<ge> 0
               then (let c2 = [Call_setSn_DIPR (sn_of sock) ip, Call_setSn_DPORT (sn_of sock) (u_port u1),
                               Call_socket (sn_of sock) Sn_MR_UDP (u_port u1) Sn_MR_MULTI]
                     in if socket_res \<ge> 0
                        then (1, u1\<lparr> u_sock := sock \<rparr>, c1 @ c2)
                        else (0, u1, c1 @ c2))
               else (0, u1, c1)))"

text \<open>
  \<open>UDP::leaveMulticast(ip)\<close>; \<open>status\<close> is read by its own \<open>isOpen(_sock)\<close>,
  \<open>status_stop\<close> by the one in \<open>stop()\<close>, \<open>status_begin\<close> by the one in the
  \<open>stop()\<close> of \<open>begin(_port)\<close>.
\<close>

definition UDP_leaveMulticast ::
  "sock_status \<Rightarrow> sock_status \<Rightarrow> sock_status \<Rightarrow> (nat \<Rightarrow> sock_status) \<Rightarrow> int \<Rightarrow> ip4 \<Rightarrow> UDP
     \<Rightarrow> int \<times> UDP \<times> ext_call list" where
  "UDP_leaveMulticast status status_stop status_begin sr socket_res ip u =
     (if \<not> UDP_isOpen status then (-1, u, [])
      else (let (u1, c1) = UDP_stop status_stop u;
                (r, u2, c2) = UDP_begin status_begin sr socket_res (u_port u1) u1
            in (uint r, u2, c1 @ c2)))"

text \<open>
  The loop of \<open>UDP::receivePacket\<close>: \<open>rx_rsr k\<close> is the \<open>k\<close>-th reading of the receive
  size register \<open>getSn_RX_RSR(_sock)\<close>, \<open>millis k\<close> the clock read by the \<open>k\<close>-th
  evaluation of the loop condition. The result says whether a datagram was seen, after
  how many readings. \<open>None\<close> is a loop that never ends.
\<close>

partial_function (option) UDP_receivePacket_loop ::
  "(nat \<Rightarrow> 16 word) \<Rightarrow> (nat \<Rightarrow> 32 word) \<Rightarrow> 32 word \<Rightarrow> 32 word \<Rightarrow> nat \<Rightarrow> (bool \<times> nat) option" where
  "UDP_receivePacket_loop rx_rsr millis start timeout k =
     (if rx_rsr k > 0 then Some (True, Suc k)
      else if timeout \<noteq> 0 \<and> millis k - start < timeout
           then UDP_receivePacket_loop rx_rsr millis start timeout (Suc k)
           else Some (False, Suc k))"

text \<open>
  \<open>UDP::receivePacket(buffer, size, timeout)\<close>; \<open>buffer_nonnull\<close> is the test
  \<open>buffer\<close>, and \<open>recvfrom len\<close> the answer of \<open>wiznet::recvfrom\<close> for a buffer of
  \<open>len\<close> bytes: its result, the sender's address and port.
\<close>

definition UDP_receivePacket ::
  "sock_status \<Rightarrow> bool \<Rightarrow> (nat \<Rightarrow> 16 word) \<Rightarrow> (16 word \<Rightarrow> int \<times> ip4 \<times> 16 word) \<Rightarrow> (nat \<Rightarrow> 32 word)
     \<Rightarrow> 32 word \<Rightarrow> 32 word \<Rightarrow> 32 word \<Rightarrow> UDP \<Rightarrow> (int \<times> UDP) option" where
  "UDP_receivePacket status buffer_nonnull rx_rsr recvfrom millis start sz timeout u =
     (if UDP_isOpen status \<and> buffer_nonnull
      then (case UDP_receivePacket_loop rx_rsr millis start timeout 0 of
              None \<Rightarrow> None
            | Some (True, n) \<Rightarrow>
                (let (ret, addr, port) = recvfrom (ucast sz)
                 in Some (ret, u\<lparr> u_remotePort := port, u_remoteIP := addr \<rparr>))
            | Some (False, n) \<Rightarrow> Some (0, u))
      else Some (-1, u))"

section \<open>Concrete inputs\<close>

text \<open>
  Environments and states at which the theorems below are instantiated. The receive
  buffer has the 2048 bytes the specification gives it.
\<close>

definition recv_five :: "nat \<Rightarrow> int \<times> 8 word list" where
  "recv_five len = (5, [1, 2, 3, 4, 5])"

definition recv_nothing :: "nat \<Rightarrow> int \<times> 8 word list" where
  "recv_nothing len = (0, [])"

definition client_one_byte :: Data where
  "client_one_byte = (Data_new 2048 0)\<lparr> d_total := 1 \<rparr>"

definition recv_one :: "nat \<Rightarrow> int \<times> 8 word list" where
  "recv_one len = (if len = 0 then (0, []) else (1, [7]))"

text \<open>
  Answers of \<open>wiznet::send\<close>: the send window is busy (\<open>SOCK_BUSY\<close>, which is 0 in
  the library); four bytes are accepted; the socket is in the wrong state (the
  library's \<open>SOCKERR_SOCKSTATUS\<close>, -7). The clock stands still.
\<close>

definition send_busy :: "nat \<Rightarrow> 16 word \<Rightarrow> int" where
  "send_busy k len = 0"

definition send_four :: "nat \<Rightarrow> 16 word \<Rightarrow> int" where
  "send_four k len = 4"

definition send_sockstatus_error :: "nat \<Rightarrow> 16 word \<Rightarrow> int" where
  "send_sockstatus_error k len = -7"

definition clock_still :: "nat \<Rightarrow> 32 word" where
  "clock_still k = 0"

text \<open>
  The singleton after \<open>setup\<close> in DHCP mode with one registered callback, and ticks:
  link down; link up with all sockets closed; link up with the lease callback firing.
\<close>

definition eth_boot :: IsolatedEthernet where
  "eth_boot =
     \<lparr> ipAddr = (0, 0, 0, 0), subnetMaskArray = (0, 0, 0, 0), gatewayAddr = (0, 0, 0, 0),
       dnsAddr = (0, 0, 0, 0), setupDone = True, phyLink = False, isReady = False,
       dhcpState = ATTEMPT, dhcpBuffer = None, dnsBuffer = None, callbacks = [0],
       lastDhcpCheck = 0, lastDnsCheck = 0 \<rparr>"

definition all_closed :: "nat \<Rightarrow> sock_status" where
  "all_closed sn = SOCK_CLOSED"

definition none_closed :: "nat \<Rightarrow> sock_status" where
  "none_closed sn = SOCK_ESTABLISHED"

definition lease_example :: lease where
  "lease_example =
     \<lparr> lease_ip = (192, 168, 2, 26), lease_sn = (255, 255, 255, 0),
       lease_gw = (192, 168, 2, 1), lease_dns = (192, 168, 2, 1) \<rparr>"

definition tick_down :: tick where
  "tick_down =
     \<lparr> wizphy_link_on = False, millis_now = 0, status_regs = all_closed,
       new_dhcpBuffer = Some 1, dhcp_run_event = No_callback,
       wizphy_link_on_in_callback = False \<rparr>"

definition tick_up :: tick where
  "tick_up =
     \<lparr> wizphy_link_on = True, millis_now = 0, status_regs = all_closed,
       new_dhcpBuffer = Some 1, dhcp_run_event = No_callback,
       wizphy_link_on_in_callback = True \<rparr>"

definition tick_lease :: tick where
  "tick_lease =
     \<lparr> wizphy_link_on = True, millis_now = 0, status_regs = all_closed,
       new_dhcpBuffer = Some 1, dhcp_run_event = Ip_assign lease_example,
       wizphy_link_on_in_callback = True \<rparr>"



definition eth_in_progress :: IsolatedEthernet where
  "eth_in_progress = eth_boot\<lparr> phyLink := True, dhcpState := IN_PROGRESS, dhcpBuffer := Some 1 \<rparr>"

definition eth_got_address :: IsolatedEthernet where
  "eth_got_address = fst (ip_assign lease_example True eth_in_progress)"


text \<open>
  A UDP socket bound to port 4551 on hardware socket 3, and a TCP server listening on
  port 4550 with hardware socket 2 whose most recently accepted client is connected on
  hardware socket 3. \<open>handle_not_negative\<close> is \<open>socket_handle_valid\<close> as the header
  describes a handle: a socket number, or -1 when there is no open socket.
\<close>

definition udp_bound :: UDP where
  "udp_bound =
     \<lparr> u_sock = 3, u_port = 4551, u_remoteIP = (0, 0, 0, 0), u_remotePort = 0,
       u_offset = 0, u_total = 0 \<rparr>"

definition multicast_group :: ip4 where
  "multicast_group = (239, 1, 1, 123)"

definition handle_not_negative :: "int \<Rightarrow> bool" where
  "handle_not_negative handle = (0 \<le> handle)"

definition server_listening :: TCPServer where
  "server_listening =
     \<lparr> s_port = 4550, s_sock = 2,
       s_client = client_one_byte\<lparr> d_sock := 3, d_remoteIP := (192, 168, 2, 6) \<rparr> \<rparr>"

text \<open>
  Two lookups in a row from the state after \<open>setup\<close>: the allocator returns the block
  100 to the first (and would return 200 to the second), all sockets are closed and
  \<open>DNS_run\<close> resolves the name.
\<close>

definition first_lookup :: "int \<times> ip4 \<times> IsolatedEthernet \<times> ext_call list" where
  "first_lookup =
     inet_gethostbyname (Some 100) all_closed 1 (93, 184, 216, 34) ''example.com'' (0, 0, 0, 0)
       eth_boot"

definition second_lookup :: "int \<times> ip4 \<times> IsolatedEthernet \<times> ext_call list" where
  "second_lookup =
     inet_gethostbyname (Some 200) all_closed 1 (93, 184, 216, 34) ''example.com'' (0, 0, 0, 0)
       (fst (snd (snd first_lookup)))"

section \<open>Arithmetic of the cursors\<close>

lemma length_buf_store: "length (buf_store b i bs) = length b"
  by (induction bs arbitrary: b i) auto

lemma uint_add_of_int16:
  "0 \<le> ret \<Longrightarrow> uint (w::16 word) + ret < 65536 \<Longrightarrow> uint (w + word_of_int ret) = uint w + ret"
proof -
  assume a: "0 \<le> ret" "uint w + ret < 65536"
  have "uint (w + word_of_int ret) = (uint w + ret) mod 2 ^ 16"
    by (simp add: uint_word_ariths uint_word_of_int mod_add_right_eq)
  also have "\<dots> = uint w + ret" using a by simp
  finally show ?thesis .
qed

lemma unat_add_of_int16:
  assumes "0 \<le> ret" "int (unat (w::16 word)) + ret < 65536"
  shows "unat (w + word_of_int ret) = unat w + nat ret"
proof -
  have "uint (w + word_of_int ret) = uint w + ret"
    using assms by (intro uint_add_of_int16) (simp_all)
  then have "int (unat (w + word_of_int ret)) = int (unat w) + ret" by simp
  then show ?thesis using assms(1) by linarith
qed

lemma unat_add_one16:
  assumes "unat (w::16 word) < unat (v::16 word)"
  shows "unat (w + 1) = unat w + 1"
proof -
  have "unat v < 65536" using unsigned_less [of v, where 'a = nat] by simp
  then have "int (unat w) + 1 < 65536" using assms by linarith
  then show ?thesis using unat_add_of_int16 [of 1 w] by simp
qed

lemma uint_word_of_int32:
  "0 \<le> n \<Longrightarrow> n < 65536 \<Longrightarrow> uint (word_of_int n :: 32 word) = n"
  by (simp add: uint_word_of_int take_bit_int_eq_self)

lemma sint_small32:
  assumes "uint (w :: 32 word) < 65536"
  shows "sint w = uint w"
proof -
  have "sint w = signed_take_bit 31 (uint w)" by (simp add: sint_uint)
  also have "\<dots> = uint w"
  proof (rule signed_take_bit_int_eq_self)
    have "- (2 ^ 31) \<le> (0::int)" by simp
    also have "0 \<le> uint w" by simp
    finally show "- (2 ^ 31) \<le> uint w" .
    show "uint w < 2 ^ 31" using assms by simp
  qed
  finally show ?thesis .
qed

lemma bufferCount_nat: "bufferCount d = int (unat (d_total d)) - int (unat (d_offset d))"
  by (simp add: bufferCount_def)

section \<open>The scan for a closed socket\<close>

lemma socketGetFree_all_closed: "socketGetFree all_closed = 0"
  by (simp add: socketGetFree_def all_closed_def NUM_SOCKETS_def)

section \<open>TCPClient: the receive buffer\<close>

lemma available_idle:
  assumes "\<not> (rdy \<and> status = SOCK_ESTABLISHED \<and> unat (d_total d) < arraySize (d_buffer d))"
    and "\<not> (d_total d \<noteq> 0 \<and> d_offset d = d_total d)"
  shows "TCPClient_available rdy status rcv d = (uint (d_total d) - uint (d_offset d), d, [])"
proof -
  have c: "(d_total d \<noteq> 0 \<and> d_offset d = d_total d) = False" using assms(2) by simp
  show ?thesis
    unfolding TCPClient_available_def c
    using assms(1) by (auto simp: TCPClient_isOpen_def bufferCount_def Let_def)
qed

lemma available_recv:
  assumes "\<not> (d_total d \<noteq> 0 \<and> d_offset d = d_total d)"
    and "rdy" "status = SOCK_ESTABLISHED" "unat (d_total d) < arraySize (d_buffer d)"
    and "rcv (recv_len d) = (ret, bs)"
  shows "TCPClient_available rdy status rcv d =
           (if ret > 0
            then (uint (d_total d + word_of_int ret) - uint (if d_total d = 0 then 0 else d_offset d),
                  d\<lparr> d_buffer := buf_store (d_buffer d) (unat (d_total d)) bs,
                     d_offset := (if d_total d = 0 then 0 else d_offset d),
                     d_total := d_total d + word_of_int ret \<rparr>,
                  [Call_recv (sn_of (d_sock d)) (recv_len d)])
            else (uint (d_total d) - uint (d_offset d), d, [Call_recv (sn_of (d_sock d)) (recv_len d)]))"
proof -
  have c: "(d_total d \<noteq> 0 \<and> d_offset d = d_total d) = False" using assms(1) by simp
  show ?thesis
    unfolding TCPClient_available_def c
    using assms(2-5) by (simp add: TCPClient_isOpen_def bufferCount_def Let_def)
qed

lemma recv_len_eq:
  "arraySize (d_buffer d) < 65536 \<Longrightarrow> recv_len d = arraySize (d_buffer d) - unat (d_total d)"
  by (simp add: recv_len_def)

lemma nonempty_total: "d_offset d < d_total d \<Longrightarrow> d_total d \<noteq> 0" for d :: Data
  by (metis word_not_simps(1))

lemma wrap16:
  assumes cap: "arraySize (d_buffer d) < 65536" and h3: "unat (d_total d) < arraySize (d_buffer d)"
   and "0 < ret" "ret \<le> int (recv_len d)"
  shows "uint (d_total d + word_of_int ret) = uint (d_total d) + ret"
proof -
  have "int (recv_len d) = int (arraySize (d_buffer d)) - uint (d_total d)"
    using h3 cap by (simp add: recv_len_eq)
  then have "uint (d_total d) + ret < 65536" using cap assms(3,4) by simp
  then show ?thesis using assms(3) by (simp add: uint_add_of_int16)
qed


lemma available_busy:
  assumes ne: "d_offset d < d_total d" and cap: "arraySize (d_buffer d) < 65536"
    and h: "rdy" "status = SOCK_ESTABLISHED" "unat (d_total d) < arraySize (d_buffer d)"
  shows "snd (snd (TCPClient_available rdy status rcv d)) = [Call_recv (sn_of (d_sock d)) (recv_len d)]
          \<and> (fst (rcv (recv_len d)) \<le> 0 \<longrightarrow>
                fst (TCPClient_available rdy status rcv d) = uint (d_total d) - uint (d_offset d)
                \<and> fst (snd (TCPClient_available rdy status rcv d)) = d
                \<and> TCPClient_available rdy status rcv (fst (snd (TCPClient_available rdy status rcv d)))
                    = TCPClient_available rdy status rcv d)
          \<and> (0 < fst (rcv (recv_len d)) \<and> fst (rcv (recv_len d)) \<le> int (recv_len d) \<longrightarrow>
                fst (TCPClient_available rdy status rcv d)
                  = uint (d_total d) - uint (d_offset d) + fst (rcv (recv_len d)))"
proof -
  have nf: "\<not> (d_total d \<noteq> 0 \<and> d_offset d = d_total d)" using ne by auto
  obtain ret bs where r: "rcv (recv_len d) = (ret, bs)" by force
  note av = available_recv [of d rdy status rcv ret bs, OF nf h r]
  show ?thesis
  proof (cases "0 < ret")
    case True
    show ?thesis
      using True wrap16 [OF cap h(3) True] nonempty_total [OF ne] by (simp add: av r)
  next
    case False
    then show ?thesis by (simp add: av r)
  qed
qed

text \<open>
  Claim C1, as the code has it. Let the receive buffer be non-empty
  (\<open>offset < total\<close>), its array shorter than 65536 bytes.
  \<^item> When the interface is not ready, or the socket is not established, or the buffer is
    full (\<open>total\<close> is the size of the array), \<open>available()\<close> returns
    \<open>total - offset\<close>, changes nothing and does not call \<open>recv\<close>.
  \<^item> Otherwise it calls \<open>recv\<close> once, for the \<open>arraySize - total\<close> free bytes, also
    though the buffer is not drained. When \<open>recv\<close> delivers nothing (a result
    \<open>\<le> 0\<close>), it returns \<open>total - offset\<close> and changes nothing, so that a second call
    in a row does what the first did and returns the same count. When \<open>recv\<close>
    delivers \<open>ret\<close> bytes, \<open>0 < ret \<le> arraySize - total\<close>, it returns
    \<open>total - offset + ret\<close>.
\<close>

theorem available_nonempty_buffer:
  assumes ne: "d_offset d < d_total d" and cap: "arraySize (d_buffer d) < 65536"
  shows "recv_len d = arraySize (d_buffer d) - unat (d_total d)
    \<and> (\<not> (rdy \<and> status = SOCK_ESTABLISHED \<and> unat (d_total d) < arraySize (d_buffer d)) \<longrightarrow>
          TCPClient_available rdy status rcv d = (uint (d_total d) - uint (d_offset d), d, []))
    \<and> (rdy \<and> status = SOCK_ESTABLISHED \<and> unat (d_total d) < arraySize (d_buffer d) \<longrightarrow>
          snd (snd (TCPClient_available rdy status rcv d)) = [Call_recv (sn_of (d_sock d)) (recv_len d)]
          \<and> (fst (rcv (recv_len d)) \<le> 0 \<longrightarrow>
                fst (TCPClient_available rdy status rcv d) = uint (d_total d) - uint (d_offset d)
                \<and> fst (snd (TCPClient_available rdy status rcv d)) = d
                \<and> TCPClient_available rdy status rcv (fst (snd (TCPClient_available rdy status rcv d)))
                    = TCPClient_available rdy status rcv d)
          \<and> (0 < fst (rcv (recv_len d)) \<and> fst (rcv (recv_len d)) \<le> int (recv_len d) \<longrightarrow>
                fst (TCPClient_available rdy status rcv d)
                  = uint (d_total d) - uint (d_offset d) + fst (rcv (recv_len d))))"
proof (intro conjI impI)
  show "recv_len d = arraySize (d_buffer d) - unat (d_total d)"
    using cap by (rule recv_len_eq)
next
  assume "\<not> (rdy \<and> status = SOCK_ESTABLISHED \<and> unat (d_total d) < arraySize (d_buffer d))"
  moreover have "\<not> (d_total d \<noteq> 0 \<and> d_offset d = d_total d)" using ne by auto
  ultimately show "TCPClient_available rdy status rcv d = (uint (d_total d) - uint (d_offset d), d, [])"
    by (rule available_idle [of rdy status d rcv])
next
  assume h: "rdy \<and> status = SOCK_ESTABLISHED \<and> unat (d_total d) < arraySize (d_buffer d)"
  note b = available_busy [of d rdy status rcv, OF ne cap]
  from h b show "snd (snd (TCPClient_available rdy status rcv d)) = [Call_recv (sn_of (d_sock d)) (recv_len d)]"
    by blast
  { assume "fst (rcv (recv_len d)) \<le> 0"
    with h b show "fst (TCPClient_available rdy status rcv d) = uint (d_total d) - uint (d_offset d)"
      by blast
    from h b \<open>fst (rcv (recv_len d)) \<le> 0\<close> show "fst (snd (TCPClient_available rdy status rcv d)) = d"
      by blast
    from h b \<open>fst (rcv (recv_len d)) \<le> 0\<close>
    show "TCPClient_available rdy status rcv (fst (snd (TCPClient_available rdy status rcv d)))
                    = TCPClient_available rdy status rcv d"
      by blast }
  { assume "0 < fst (rcv (recv_len d)) \<and> fst (rcv (recv_len d)) \<le> int (recv_len d)"
    with h b show "fst (TCPClient_available rdy status rcv d)
                  = uint (d_total d) - uint (d_offset d) + fst (rcv (recv_len d))"
      by blast }
qed

text \<open>
  At a buffer of 2048 bytes holding one unread byte: not ready; ready with nothing
  received, twice in a row; ready with five bytes received.
\<close>

theorem available_nonempty_buffer_witness:
  "d_offset client_one_byte < d_total client_one_byte
   \<and> arraySize (d_buffer client_one_byte) < 65536
   \<and> TCPClient_available False SOCK_ESTABLISHED recv_five client_one_byte = (1, client_one_byte, [])
   \<and> fst (TCPClient_available True SOCK_ESTABLISHED recv_nothing client_one_byte) = 1
   \<and> TCPClient_available True SOCK_ESTABLISHED recv_nothing
        (fst (snd (TCPClient_available True SOCK_ESTABLISHED recv_nothing client_one_byte)))
      = TCPClient_available True SOCK_ESTABLISHED recv_nothing client_one_byte
   \<and> snd (snd (TCPClient_available True SOCK_ESTABLISHED recv_nothing client_one_byte)) = [Call_recv 0 2047]
   \<and> fst (TCPClient_available True SOCK_ESTABLISHED recv_five client_one_byte) = 6"
proof -
  have ne: "d_offset client_one_byte < d_total client_one_byte"
    by (simp add: client_one_byte_def Data_new_def)
  have cap: "arraySize (d_buffer client_one_byte) < 65536"
    by (simp add: client_one_byte_def Data_new_def arraySize_def)
  have v: "unat (d_total client_one_byte) < arraySize (d_buffer client_one_byte)"
      "uint (d_total client_one_byte) - uint (d_offset client_one_byte) = 1"
      "d_sock client_one_byte = 0" "arraySize (d_buffer client_one_byte) - unat (d_total client_one_byte) = 2047"
    by (simp_all add: client_one_byte_def Data_new_def arraySize_def)
  show ?thesis
    using ne cap v
      available_nonempty_buffer [OF ne cap, of False SOCK_ESTABLISHED recv_five]
      available_nonempty_buffer [OF ne cap, of True SOCK_ESTABLISHED recv_nothing]
      available_nonempty_buffer [OF ne cap, of True SOCK_ESTABLISHED recv_five]
    by (simp add: recv_five_def recv_nothing_def sn_of_def)
qed

text \<open>
  Claim C1 as stated fails: with one unread byte in the buffer (\<open>offset = 0\<close>,
  \<open>total = 1\<close>), \<open>available()\<close> asks \<open>recv\<close> for the 2047 free bytes and, five
  bytes having arrived, returns 6, not \<open>total - offset = 1\<close>.
\<close>

theorem available_tops_up_counterexample:
  "d_offset client_one_byte < d_total client_one_byte
   \<and> bufferCount client_one_byte = 1
   \<and> fst (TCPClient_available True SOCK_ESTABLISHED recv_five client_one_byte) = 6
   \<and> snd (snd (TCPClient_available True SOCK_ESTABLISHED recv_five client_one_byte)) = [Call_recv 0 2047]"
  by (simp add: client_one_byte_def Data_new_def TCPClient_available_def TCPClient_isOpen_def
      recv_five_def bufferCount_def arraySize_def recv_len_def sn_of_def Let_def)

section \<open>The address state machine, tick by tick\<close>

lemmas sm_defs = stateMachine_def linkEdge_def dhcpSwitch_def dnsTimer_def DHCP_run_def
  ip_assign_def ip_update_def ip_conflict_def updateAddressSettingsFromDHCP_def
  updateAddressSettings_def callCallbacks_def

lemma stateMachine_phyLink: "phyLink (fst (stateMachine e s)) = wizphy_link_on e"
  by (cases "dhcpState s"; cases "dhcp_run_event e")
     (auto simp: sm_defs Let_def split: prod.splits if_splits)


lemma stateMachine_dhcpState:
  "dhcpState (fst (stateMachine e s)) =
     spec_dhcp_transition (dhcpState s) (wizphy_link_on e)
       (0 \<le> socketGetFree (status_regs e)) (is_assign (dhcp_run_event e))"
  by (cases "dhcpState s"; cases "dhcp_run_event e")
     (auto simp: sm_defs Let_def split: prod.splits if_splits)


lemma threadFunction_Cons:
  "fst (threadFunction (e # es) s) =
     fst (threadFunction es (if setupDone s then fst (stateMachine e s) else s))"
  by (simp add: Let_def split: prod.splits)


lemma threadFunction_append:
  "fst (threadFunction (xs @ ys) s) = fst (threadFunction ys (fst (threadFunction xs s)))"
proof (induction xs arbitrary: s)
  case Nil
  show ?case by simp
next
  case (Cons e xs)
  show ?case
    using Cons [of "if setupDone s then fst (stateMachine e s) else s"]
    by (simp only: append_Cons threadFunction_Cons)
qed



lemma fired_count_append: "fired_count t (xs @ ys) = fired_count t xs + fired_count t ys"
  by (simp add: fired_count_def)

lemma threadFunction_snd_Cons:
  "setupDone s \<Longrightarrow>
     snd (threadFunction (e # es) s) =
       snd (stateMachine e s) @ snd (threadFunction es (fst (stateMachine e s)))"
  by (simp add: Let_def split: prod.splits)

lemma threadFunction_not_setup: "\<not> setupDone s \<Longrightarrow> threadFunction es s = (s, [])"
  by (induction es) (simp_all add: Let_def)

lemma dhcp_mode_kept:
  assumes "dhcpState s \<noteq> NOT_USED" "dhcpState s \<noteq> CLEANUP_DISABLE"
  shows "dhcpState (fst (stateMachine e s)) \<noteq> NOT_USED \<and>
         dhcpState (fst (stateMachine e s)) \<noteq> CLEANUP_DISABLE"
  using assms by (cases "dhcpState s") (simp_all add: stateMachine_dhcpState)

section \<open>The DHCP cycle over link changes\<close>






lemma dhcp_after_Nil: "dhcp_after [] s = dhcpState s"
  by (simp add: dhcp_after_def)

lemma dhcp_after_append:
  "dhcp_after (xs @ ys) s = dhcp_after ys (fst (threadFunction xs s))"
  by (simp add: dhcp_after_def threadFunction_append)







section \<open>TCPClient::write and UDP::receivePacket: the timeout\<close>

text \<open>
  With a timeout of zero the condition \<open>timeout != 0 && millis() - start < timeout\<close>
  of the \<open>do ... while\<close> loop is false after the first pass: \<open>write\<close> calls
  \<open>send\<close> once and returns, whatever \<open>send\<close> answered.
\<close>

lemma write_loop_timeout_zero:
  "TCPClient_write_loop busy send millis start sz 0 k offset =
     (let ret = send k (ucast (sz - offset))
      in if ret > 0
         then (if offset + word_of_int ret = sz then Some (sint sz, 0, Suc k) else Some (ret, 0, Suc k))
         else if ret \<noteq> busy then Some (ret, ret, Suc k) else Some (ret, 0, Suc k))"
  by (subst TCPClient_write_loop.simps) (simp add: Let_def)

text \<open>
  \<open>receivePacket\<close> on an open socket, with a buffer and a timeout of zero, reads the
  receive size register once: it returns the datagram when one is pending and 0
  otherwise.
\<close>

lemma receivePacket_timeout_zero:
  "UDP_receivePacket SOCK_UDP True rx_rsr recvfrom millis start sz 0 u =
     (if rx_rsr 0 > 0
      then (let (ret, addr, port) = recvfrom (ucast sz)
            in Some (ret, u\<lparr> u_remotePort := port, u_remoteIP := addr \<rparr>))
      else Some (0, u))"
  by (subst UDP_receivePacket_def, subst UDP_receivePacket_loop.simps)
     (simp add: UDP_isOpen_def)

text \<open>
  Claim C3 says that \<open>write(buffer, size, 0)\<close> keeps retrying until all bytes are
  accepted or a non-busy error occurs, as the header documents (\<open>0 to wait forever\<close>).
  The code at \<open>write(buffer, 10, 0)\<close>: while the send window is busy it returns 0
  after a single call of \<open>send\<close>, with no write error set; when the first \<open>send\<close>
  accepts 4 of the 10 bytes it returns 4 after that single call, the other 6 bytes
  unsent.
\<close>

theorem write_timeout_zero_returns_after_one_send:
  "TCPClient_write 0 send_busy clock_still 0 10 0 = Some (0, 0, 1)
   \<and> TCPClient_write 0 send_four clock_still 0 10 0 = Some (4, 0, 1)"
  by (simp add: TCPClient_write_def write_loop_timeout_zero send_busy_def send_four_def Let_def)

section \<open>TCPClient::write: the returned count\<close>

text \<open>
  Claim C4 says that \<open>write\<close> never packs a negative error code into the unsigned
  count it returns. The code at \<open>write(buffer, 10, 30000)\<close> when \<open>send\<close> fails with
  the error -7: the \<open>int ret\<close> is returned as the \<open>size_t\<close> 4294967289
  (\<open>2^32 - 7\<close>), the same -7 being the write error.
\<close>

theorem write_returns_negative_error_as_count:
  "TCPClient_write 0 send_sockstatus_error clock_still 0 10 30000 = Some (4294967289, -7, 1)"
  by (subst TCPClient_write_def, subst TCPClient_write_loop.simps)
     (simp add: send_sockstatus_error_def Let_def)

section \<open>The deferred gotIpAddress notification\<close>

lemma ip_assign_effect:
  "ip_assign l link s =
     (s\<lparr> ipAddr := lease_ip l, subnetMaskArray := lease_sn l, gatewayAddr := lease_gw l,
         dnsAddr := lease_dns l, isReady := (link \<or> isReady s), dhcpState := GOT_ADDRESS \<rparr>,
      [Call_wizchip_setnetinfo (lease_ip l) (lease_sn l) (lease_gw l) (lease_dns l)
         (dhcpState s \<noteq> NOT_USED)])"
  by (cases link) (simp_all add: ip_assign_def updateAddressSettingsFromDHCP_def updateAddressSettings_def)

lemma stateMachine_fired_gotIp:
  "dhcpState s \<noteq> NOT_USED \<Longrightarrow>
     fired_count gotIpAddress (snd (stateMachine e s)) = (if dhcpState s = GOT_ADDRESS then 1 else 0)"
  by (cases "dhcpState s"; cases "dhcp_run_event e")
     (auto simp: sm_defs fired_count_def Let_def split: prod.splits if_splits)

lemma stateMachine_got_address:
  "dhcpState s = GOT_ADDRESS \<Longrightarrow>
     Fire gotIpAddress (callbacks s) \<in> set (snd (stateMachine e s))"
  by (auto simp: sm_defs Let_def split: prod.splits if_splits)

lemma lease_count_Cons:
  "lease_count (e # es) = (if is_assign (dhcp_run_event e) then 1 else 0) + lease_count es"
  by (simp add: lease_count_def)

lemma gotIp_bounded:
  assumes "dhcpState s \<noteq> NOT_USED" "dhcpState s \<noteq> CLEANUP_DISABLE"
  shows "fired_count gotIpAddress (snd (threadFunction es s))
           \<le> lease_count es + (if dhcpState s = GOT_ADDRESS then 1 else 0)"
  using assms
proof (induction es arbitrary: s)
  case Nil
  show ?case by (simp add: fired_count_def)
next
  case (Cons e es)
  show ?case
  proof (cases "setupDone s")
    case False
    then show ?thesis by (simp add: threadFunction_not_setup fired_count_def)
  next
    case True
    define s' where "s' = fst (stateMachine e s)"
    have st: "dhcpState s' = spec_dhcp_transition (dhcpState s) (wizphy_link_on e)
       (0 \<le> socketGetFree (status_regs e)) (is_assign (dhcp_run_event e))"
      by (simp add: s'_def stateMachine_dhcpState)
    have ok: "dhcpState s' \<noteq> NOT_USED" "dhcpState s' \<noteq> CLEANUP_DISABLE"
      using dhcp_mode_kept [OF Cons.prems, of e] by (simp_all add: s'_def)
    have step: "is_assign (dhcp_run_event e)" if "dhcpState s' = GOT_ADDRESS"
      using that Cons.prems st by (cases "dhcpState s"; simp split: if_splits)
    have got: "dhcpState s = GOT_ADDRESS \<Longrightarrow> dhcpState s' \<noteq> GOT_ADDRESS"
      using st by simp
    have ih: "fired_count gotIpAddress (snd (threadFunction es s'))
           \<le> lease_count es + (if dhcpState s' = GOT_ADDRESS then 1 else 0)"
      using ok by (rule Cons.IH)
    have f: "fired_count gotIpAddress (snd (stateMachine e s))
               = (if dhcpState s = GOT_ADDRESS then 1 else 0)"
      using Cons.prems(1) by (rule stateMachine_fired_gotIp)
    have "fired_count gotIpAddress (snd (threadFunction (e # es) s))
            = fired_count gotIpAddress (snd (stateMachine e s))
              + fired_count gotIpAddress (snd (threadFunction es s'))"
      using True by (simp only: threadFunction_snd_Cons fired_count_append s'_def)
    then show ?thesis
      using ih f step got by (auto simp: lease_count_Cons split: if_splits)
  qed
qed


lemma gotIp_once_after_lease:
  assumes "setupDone s" "dhcpState s = GOT_ADDRESS" "lease_count (e # es) = 0"
  shows "fired_count gotIpAddress (snd (threadFunction (e # es) s)) = 1"
proof -
  define s' where "s' = fst (stateMachine e s)"
  have st: "dhcpState s' = CLEANUP"
    using assms(2) by (simp add: s'_def stateMachine_dhcpState)
  have "fired_count gotIpAddress (snd (threadFunction es s'))
          \<le> lease_count es + (if dhcpState s' = GOT_ADDRESS then 1 else 0)"
    by (rule gotIp_bounded) (simp_all add: st)
  moreover have "lease_count es = 0" using assms(3) by (simp add: lease_count_Cons)
  ultimately have rest: "fired_count gotIpAddress (snd (threadFunction es s')) = 0"
    by (simp add: st)
  have "fired_count gotIpAddress (snd (stateMachine e s)) = 1"
    using assms(2) by (simp add: stateMachine_fired_gotIp)
  then show ?thesis
    using assms(1) rest
    by (simp only: threadFunction_snd_Cons fired_count_append s'_def)
qed

text \<open>
  Claim C5. The lease callback \<open>ip_assign\<close> copies the four leased addresses into the
  singleton, pushes them to the chip (which sets \<open>isReady\<close> when the link is up),
  records \<open>GOT_ADDRESS\<close> and calls no user callback; the tick of \<open>IN_PROGRESS\<close> in
  which it runs fires no \<open>gotIpAddress\<close>. A tick in \<open>GOT_ADDRESS\<close> calls
  \<open>callCallbacks(gotIpAddress)\<close> exactly once, for the registered handlers, and moves to
  \<open>CLEANUP\<close>. From \<open>GOT_ADDRESS\<close> on, over any further ticks without a new lease,
  \<open>gotIpAddress\<close> is fired exactly once in all; and in DHCP mode the number of times it
  is fired over any ticks is at most the number of ticks whose \<open>DHCP_run\<close> delivers a
  lease, plus one if the machine starts in \<open>GOT_ADDRESS\<close>.
\<close>

theorem gotIpAddress_deferred_and_fired_once:
  "ip_assign l link s =
     (s\<lparr> ipAddr := lease_ip l, subnetMaskArray := lease_sn l, gatewayAddr := lease_gw l,
         dnsAddr := lease_dns l, isReady := (link \<or> isReady s), dhcpState := GOT_ADDRESS \<rparr>,
      [Call_wizchip_setnetinfo (lease_ip l) (lease_sn l) (lease_gw l) (lease_dns l)
         (dhcpState s \<noteq> NOT_USED)])
   \<and> (dhcpState s = IN_PROGRESS \<longrightarrow> fired_count gotIpAddress (snd (stateMachine e s)) = 0)
   \<and> (dhcpState s = GOT_ADDRESS \<longrightarrow>
         dhcpState (fst (stateMachine e s)) = CLEANUP
         \<and> fired_count gotIpAddress (snd (stateMachine e s)) = 1
         \<and> Fire gotIpAddress (callbacks s) \<in> set (snd (stateMachine e s)))
   \<and> (setupDone s \<and> dhcpState s = GOT_ADDRESS \<and> lease_count (e # es) = 0 \<longrightarrow>
         fired_count gotIpAddress (snd (threadFunction (e # es) s)) = 1)
   \<and> (dhcpState s \<noteq> NOT_USED \<and> dhcpState s \<noteq> CLEANUP_DISABLE \<longrightarrow>
         fired_count gotIpAddress (snd (threadFunction es s))
           \<le> lease_count es + (if dhcpState s = GOT_ADDRESS then 1 else 0))"
proof (intro conjI impI)
  show "ip_assign l link s =
     (s\<lparr> ipAddr := lease_ip l, subnetMaskArray := lease_sn l, gatewayAddr := lease_gw l,
         dnsAddr := lease_dns l, isReady := (link \<or> isReady s), dhcpState := GOT_ADDRESS \<rparr>,
      [Call_wizchip_setnetinfo (lease_ip l) (lease_sn l) (lease_gw l) (lease_dns l)
         (dhcpState s \<noteq> NOT_USED)])"
    by (rule ip_assign_effect)
next
  assume "dhcpState s = IN_PROGRESS"
  then show "fired_count gotIpAddress (snd (stateMachine e s)) = 0"
    by (simp add: stateMachine_fired_gotIp)
next
  assume g: "dhcpState s = GOT_ADDRESS"
  then show "dhcpState (fst (stateMachine e s)) = CLEANUP"
    by (simp add: stateMachine_dhcpState)
  from g show "fired_count gotIpAddress (snd (stateMachine e s)) = 1"
    by (simp add: stateMachine_fired_gotIp)
  from g show "Fire gotIpAddress (callbacks s) \<in> set (snd (stateMachine e s))"
    by (rule stateMachine_got_address)
next
  assume "setupDone s \<and> dhcpState s = GOT_ADDRESS \<and> lease_count (e # es) = 0"
  then show "fired_count gotIpAddress (snd (threadFunction (e # es) s)) = 1"
    by (intro gotIp_once_after_lease) simp_all
next
  assume "dhcpState s \<noteq> NOT_USED \<and> dhcpState s \<noteq> CLEANUP_DISABLE"
  then show "fired_count gotIpAddress (snd (threadFunction es s))
           \<le> lease_count es + (if dhcpState s = GOT_ADDRESS then 1 else 0)"
    by (intro gotIp_bounded) simp_all
qed

text \<open>
  At the state left by the lease callback with the link up, followed by four ticks
  (up, up, down, up), and at the tick of \<open>IN_PROGRESS\<close> that delivers the lease.
\<close>

theorem gotIpAddress_deferred_and_fired_once_witness:
  "setupDone eth_got_address \<and> dhcpState eth_got_address = GOT_ADDRESS
   \<and> localIP eth_got_address = (192, 168, 2, 26)
   \<and> lease_count (tick_up # [tick_up, tick_down, tick_up]) = 0
   \<and> dhcpState (fst (stateMachine tick_up eth_got_address)) = CLEANUP
   \<and> fired_count gotIpAddress (snd (stateMachine tick_up eth_got_address)) = 1
   \<and> Fire gotIpAddress [0] \<in> set (snd (stateMachine tick_up eth_got_address))
   \<and> fired_count gotIpAddress
        (snd (threadFunction (tick_up # [tick_up, tick_down, tick_up]) eth_got_address)) = 1
   \<and> dhcpState eth_in_progress = IN_PROGRESS
   \<and> fired_count gotIpAddress (snd (stateMachine tick_lease eth_in_progress)) = 0"
proof -
  have g: "eth_got_address =
      eth_in_progress\<lparr> ipAddr := (192, 168, 2, 26), subnetMaskArray := (255, 255, 255, 0),
        gatewayAddr := (192, 168, 2, 1), dnsAddr := (192, 168, 2, 1), isReady := True,
        dhcpState := GOT_ADDRESS \<rparr>"
    using gotIpAddress_deferred_and_fired_once [of lease_example True eth_in_progress]
    by (simp add: eth_got_address_def lease_example_def)
  have b: "setupDone eth_got_address" "dhcpState eth_got_address = GOT_ADDRESS"
    "localIP eth_got_address = (192, 168, 2, 26)" "callbacks eth_got_address = [0]"
    "dhcpState eth_in_progress = IN_PROGRESS"
    by (simp_all add: g localIP_def eth_in_progress_def eth_boot_def)
  have c: "lease_count (tick_up # [tick_up, tick_down, tick_up]) = 0"
    by (simp add: lease_count_def tick_up_def tick_down_def)
  show ?thesis
    using b c
      gotIpAddress_deferred_and_fired_once [of lease_example True eth_got_address tick_up
        "[tick_up, tick_down, tick_up]"]
      gotIpAddress_deferred_and_fired_once [of lease_example True eth_in_progress tick_lease "[]"]
    by simp
qed

section \<open>UDP::leaveMulticast\<close>

lemma UDP_stop_value:
  "UDP_stop status u =
     (u\<lparr> u_sock := -1, u_offset := 0, u_total := 0 \<rparr>,
      (if UDP_isOpen status then [Call_close (sn_of (u_sock u))] else []))"
  by (simp add: UDP_stop_def UDP_flush_buffer_def)

lemma UDP_begin_value:
  "UDP_begin status sr socket_res port u =
     (if 0 \<le> socketGetFree sr
      then (if 0 \<le> socket_res
            then (1, u\<lparr> u_sock := socketGetFree sr, u_port := port, u_offset := 0, u_total := 0 \<rparr>,
                  (if UDP_isOpen status then [Call_close (sn_of (u_sock u))] else [])
                  @ [Call_socket (sn_of (socketGetFree sr)) Sn_MR_UDP port Sn_MR_NONE])
            else (0, u\<lparr> u_sock := -1, u_offset := 0, u_total := 0 \<rparr>,
                  (if UDP_isOpen status then [Call_close (sn_of (u_sock u))] else [])
                  @ [Call_socket (sn_of (socketGetFree sr)) Sn_MR_UDP port Sn_MR_NONE]))
      else (0, u\<lparr> u_sock := -1, u_offset := 0, u_total := 0 \<rparr>,
            (if UDP_isOpen status then [Call_close (sn_of (u_sock u))] else [])))"
  by (simp add: UDP_begin_def UDP_stop_value Let_def)

lemma leaveMulticast_closed:
  "\<not> UDP_isOpen status \<Longrightarrow>
     UDP_leaveMulticast status status_stop status_begin sr socket_res ip u = (-1, u, [])"
  by (simp add: UDP_leaveMulticast_def)

lemma leaveMulticast_open:
  "UDP_isOpen status \<Longrightarrow>
     UDP_leaveMulticast status status_stop status_begin sr socket_res ip u =
       (if 0 \<le> socketGetFree sr \<and> 0 \<le> socket_res
        then (1, u\<lparr> u_sock := socketGetFree sr, u_offset := 0, u_total := 0 \<rparr>,
              (if UDP_isOpen status_stop then [Call_close (sn_of (u_sock u))] else [])
              @ (if UDP_isOpen status_begin then [Call_close (sn_of (-1))] else [])
              @ [Call_socket (sn_of (socketGetFree sr)) Sn_MR_UDP (u_port u) Sn_MR_NONE])
        else (0, u\<lparr> u_sock := -1, u_offset := 0, u_total := 0 \<rparr>,
              (if UDP_isOpen status_stop then [Call_close (sn_of (u_sock u))] else [])
              @ (if UDP_isOpen status_begin then [Call_close (sn_of (-1))] else [])
              @ (if 0 \<le> socketGetFree sr
                 then [Call_socket (sn_of (socketGetFree sr)) Sn_MR_UDP (u_port u) Sn_MR_NONE]
                 else [])))"
  by (simp add: UDP_leaveMulticast_def UDP_stop_value UDP_begin_value Let_def)

text \<open>
  Claim C6, as the code has it. \<open>leaveMulticast(group)\<close> first reads the status of
  the socket. When it is not \<open>SOCK_UDP\<close>, it returns -1 and changes nothing: nothing is
  closed, nothing is bound. When it is \<open>SOCK_UDP\<close>, it calls \<open>stop()\<close> and then
  \<open>begin(_port)\<close> with the port the socket was bound to: each of the two
  \<open>stop()\<close>s closes its socket number when it reads it open, the cursors are cleared
  and, when \<open>socketGetFree\<close> finds a closed socket, \<open>wiznet::socket\<close> is asked to open
  it as a plain UDP socket (\<open>Sn_MR_UDP\<close> without the multicast flag) on that port.
  The result is 1 with \<open>_sock\<close> that socket when \<open>wiznet::socket\<close> succeeds; it is 0
  with \<open>_sock = -1\<close> when it fails or no socket is closed. The port is never changed
  and the group is not used.
\<close>

theorem leaveMulticast_rebinds_open_socket:
  "(\<not> UDP_isOpen status \<longrightarrow>
       UDP_leaveMulticast status status_stop status_begin sr socket_res ip u = (-1, u, []))
   \<and> (UDP_isOpen status \<longrightarrow>
       UDP_leaveMulticast status status_stop status_begin sr socket_res ip u =
       (if 0 \<le> socketGetFree sr \<and> 0 \<le> socket_res
        then (1, u\<lparr> u_sock := socketGetFree sr, u_offset := 0, u_total := 0 \<rparr>,
              (if UDP_isOpen status_stop then [Call_close (sn_of (u_sock u))] else [])
              @ (if UDP_isOpen status_begin then [Call_close (sn_of (-1))] else [])
              @ [Call_socket (sn_of (socketGetFree sr)) Sn_MR_UDP (u_port u) Sn_MR_NONE])
        else (0, u\<lparr> u_sock := -1, u_offset := 0, u_total := 0 \<rparr>,
              (if UDP_isOpen status_stop then [Call_close (sn_of (u_sock u))] else [])
              @ (if UDP_isOpen status_begin then [Call_close (sn_of (-1))] else [])
              @ (if 0 \<le> socketGetFree sr
                 then [Call_socket (sn_of (socketGetFree sr)) Sn_MR_UDP (u_port u) Sn_MR_NONE]
                 else []))))"
  using leaveMulticast_closed [of status status_stop status_begin sr socket_res ip u]
    leaveMulticast_open [of status status_stop status_begin sr socket_res ip u]
  by (intro conjI impI) assumption+

text \<open>
  At the socket bound to port 4551 on hardware socket 3: open with a closed socket to
  take; open with no closed socket; and not open.
\<close>

theorem leaveMulticast_rebinds_open_socket_witness:
  "UDP_isOpen SOCK_UDP \<and> \<not> UDP_isOpen SOCK_CLOSED
   \<and> UDP_leaveMulticast SOCK_UDP SOCK_UDP SOCK_CLOSED all_closed 0 multicast_group udp_bound =
       (1, udp_bound\<lparr> u_sock := 0 \<rparr>,
        [Call_close 3, Call_socket 0 Sn_MR_UDP 4551 Sn_MR_NONE])
   \<and> UDP_leaveMulticast SOCK_UDP SOCK_UDP SOCK_CLOSED none_closed 0 multicast_group udp_bound =
       (0, udp_bound\<lparr> u_sock := -1 \<rparr>, [Call_close 3])
   \<and> UDP_leaveMulticast SOCK_CLOSED SOCK_UDP SOCK_CLOSED all_closed 0 multicast_group udp_bound =
       (-1, udp_bound, [])"
proof -
  have o: "UDP_isOpen SOCK_UDP" "\<not> UDP_isOpen SOCK_CLOSED" by (simp_all add: UDP_isOpen_def)
  have f: "socketGetFree all_closed = 0" by (rule socketGetFree_all_closed)
  have n: "socketGetFree none_closed = -1"
    by (simp add: socketGetFree_def none_closed_def NUM_SOCKETS_def)
  have u: "u_sock udp_bound = 3" "u_port udp_bound = 4551"
    "udp_bound\<lparr> u_sock := 0, u_offset := 0, u_total := 0 \<rparr> = udp_bound\<lparr> u_sock := 0 \<rparr>"
    "udp_bound\<lparr> u_sock := -1, u_offset := 0, u_total := 0 \<rparr> = udp_bound\<lparr> u_sock := -1 \<rparr>"
    by (simp_all add: udp_bound_def)
  show ?thesis
    using o
      leaveMulticast_rebinds_open_socket [of SOCK_UDP SOCK_UDP SOCK_CLOSED all_closed 0
        multicast_group udp_bound]
      leaveMulticast_rebinds_open_socket [of SOCK_UDP SOCK_UDP SOCK_CLOSED none_closed 0
        multicast_group udp_bound]
      leaveMulticast_rebinds_open_socket [of SOCK_CLOSED SOCK_UDP SOCK_CLOSED all_closed 0
        multicast_group udp_bound]
    by (simp add: f n u sn_of_def)
qed

text \<open>
  Claim C6 as stated fails: on a socket whose status register reads closed,
  \<open>leaveMulticast\<close> returns -1 and neither closes nor rebinds anything.
\<close>

theorem leaveMulticast_closed_socket_counterexample:
  "UDP_leaveMulticast SOCK_CLOSED SOCK_CLOSED SOCK_CLOSED all_closed 0 multicast_group udp_bound
     = (-1, udp_bound, [])"
  by (simp add: UDP_leaveMulticast_def UDP_isOpen_def)

section \<open>TCPServer::begin\<close>

text \<open>
  After \<open>stop()\<close> the server's \<open>_sock\<close> is \<open>-1\<close>: when \<open>socket_handle_valid\<close> rejects
  \<open>-1\<close>, the test \<open>socket_handle_valid(_sock)\<close> of \<open>begin()\<close> never succeeds.
\<close>

lemma TCPServer_begin_always_restarts:
  assumes "\<not> valid (-1)"
  shows "TCPServer_begin valid rdy sr socket_res listen_ok srv =
           (let (srv1, c1) = TCPServer_stop srv
            in if rdy
               then (let (r, srv2, c2) = startListener sr socket_res listen_ok srv1
                     in (r, srv2, c1 @ c2))
               else (False, srv1, c1))"
proof -
  obtain srv1 c1 where st: "TCPServer_stop srv = (srv1, c1)" by force
  then have "s_sock srv1 = -1"
    by (auto simp: TCPServer_stop_def Let_def split: prod.splits)
  then have "\<not> valid (s_sock srv1)" using assms by simp
  then show ?thesis by (simp add: TCPServer_begin_def st)
qed

text \<open>
  Claim C7 says that \<open>begin()\<close> on a server that holds a listening slot returns
  \<open>true\<close> and changes nothing. The code at a server listening on hardware socket 2
  whose last accepted client is connected on socket 3 with one unread byte: \<open>begin()\<close>
  disconnects the client (its handle becomes -1 and its buffered byte is dropped) and
  the listening socket, then, the interface being ready, opens and listens on the
  first closed socket (socket 0 here); when the interface is not ready it returns
  \<open>false\<close> and the server is left with no listening slot. The test
  \<open>socket_handle_valid(_sock)\<close> comes after \<open>stop()\<close> has set \<open>_sock\<close> to -1.
\<close>

theorem begin_on_listening_server_restarts:
  "s_sock server_listening = 2 \<and> d_sock (s_client server_listening) = 3
   \<and> bufferCount (s_client server_listening) = 1
   \<and> TCPServer_begin handle_not_negative True all_closed 0 True server_listening =
       (True,
        server_listening\<lparr> s_sock := 0,
          s_client := (s_client server_listening)
             \<lparr> d_sock := -1, d_offset := 0, d_total := 0, d_remoteIP := (0, 0, 0, 0) \<rparr> \<rparr>,
        [Call_disconnect 3, Call_disconnect 2, Call_socket 0 Sn_MR_TCP 4550 Sn_MR_NONE,
         Call_listen 0])
   \<and> TCPServer_begin handle_not_negative False all_closed 0 True server_listening =
       (False,
        server_listening\<lparr> s_sock := -1,
          s_client := (s_client server_listening)
             \<lparr> d_sock := -1, d_offset := 0, d_total := 0, d_remoteIP := (0, 0, 0, 0) \<rparr> \<rparr>,
        [Call_disconnect 3, Call_disconnect 2])"
  by (simp add: TCPServer_begin_def TCPServer_stop_def TCPClient_stop_def TCPClient_flush_buffer_def
      startListener_def socketGetFree_all_closed handle_not_negative_def server_listening_def
      client_one_byte_def Data_new_def bufferCount_def sn_of_def Let_def)

section \<open>TCPClient: the invariant of the cursors\<close>

lemma flush_buffer_inv:
  "arraySize (d_buffer d) = capacity \<Longrightarrow> buffer_inv capacity (TCPClient_flush_buffer d)"
  by (simp add: buffer_inv_def TCPClient_flush_buffer_def)

lemma available_inv:
  assumes inv: "buffer_inv capacity d" and cap: "capacity < 65536" and rc: "recv_within_len rcv"
  shows "buffer_inv capacity (fst (snd (TCPClient_available rdy status rcv d)))"
    and "fst (TCPClient_available rdy status rcv d)
           = bufferCount (fst (snd (TCPClient_available rdy status rcv d)))"
proof -
  define d1 where "d1 = (if d_total d \<noteq> 0 \<and> d_offset d = d_total d then TCPClient_flush_buffer d else d)"
  have inv1: "buffer_inv capacity d1"
    using inv by (auto simp: d1_def buffer_inv_def TCPClient_flush_buffer_def)
  have av: "TCPClient_available rdy status rcv d =
     (if rdy \<and> TCPClient_isOpen status
         then (if unat (d_total d1) < arraySize (d_buffer d1)
               then (let (ret, bs) = rcv (recv_len d1);
                         d2 = (if ret > 0
                               then d1\<lparr> d_buffer := buf_store (d_buffer d1) (unat (d_total d1)) bs,
                                        d_offset := (if d_total d1 = 0 then 0 else d_offset d1),
                                        d_total := d_total d1 + word_of_int ret \<rparr>
                               else d1)
                     in (bufferCount d2, d2, [Call_recv (sn_of (d_sock d1)) (recv_len d1)]))
               else (bufferCount d1, d1, []))
         else (bufferCount d1, d1, []))"
    unfolding TCPClient_available_def d1_def Let_def by (rule refl)
  obtain ret bs where r: "rcv (recv_len d1) = (ret, bs)" by force
  have len: "recv_len d1 = capacity - unat (d_total d1)"
    using inv1 cap by (simp add: recv_len_def buffer_inv_def)
  have le: "ret \<le> int (capacity - unat (d_total d1))"
    using rc r len by (metis fst_conv recv_within_len_def)
  have grow: "buffer_inv capacity
      (d1\<lparr> d_buffer := buf_store (d_buffer d1) (unat (d_total d1)) bs,
           d_offset := (if d_total d1 = 0 then 0 else d_offset d1),
           d_total := d_total d1 + word_of_int ret \<rparr>)" if pos: "0 < ret"
  proof -
    have "int (unat (d_total d1)) + ret < 65536" using le cap inv1 by (simp add: buffer_inv_def)
    then have u: "unat (d_total d1 + word_of_int ret) = unat (d_total d1) + nat ret"
      using pos by (intro unat_add_of_int16) simp_all
    have "nat ret \<le> capacity - unat (d_total d1)" using le by linarith
    then show ?thesis using inv1 u
      by (auto simp: buffer_inv_def arraySize_def length_buf_store)
  qed
  show "buffer_inv capacity (fst (snd (TCPClient_available rdy status rcv d)))"
    using inv1 grow by (simp add: av r Let_def)
  show "fst (TCPClient_available rdy status rcv d)
           = bufferCount (fst (snd (TCPClient_available rdy status rcv d)))"
    by (simp add: av r Let_def)
qed


lemma bufferCount_or_available_inv:
  assumes inv: "buffer_inv capacity d" and cap: "capacity < 65536" and rc: "recv_within_len rcv"
    and b: "bufferCount_or_available rdy status rcv d = (go, d1, cs)"
  shows "buffer_inv capacity d1" and "go \<Longrightarrow> unat (d_offset d1) < unat (d_total d1)"
proof -
  have pos: "unat (d_offset x) < unat (d_total x)"
    if "buffer_inv capacity x" "bufferCount x \<noteq> 0" for x
    using that by (simp add: buffer_inv_def bufferCount_nat del: of_nat_unat)
  show "buffer_inv capacity d1"
  proof (cases "bufferCount d \<noteq> 0")
    case True
    then show ?thesis using b inv by (simp add: bufferCount_or_available_def)
  next
    case False
    then have "d1 = fst (snd (TCPClient_available rdy status rcv d))"
      using b by (auto simp: bufferCount_or_available_def Let_def split: prod.splits)
    then show ?thesis using available_inv(1) [OF inv cap rc] by simp
  qed
  show "unat (d_offset d1) < unat (d_total d1)" if go
  proof (cases "bufferCount d \<noteq> 0")
    case True
    then have "d1 = d" using b by (simp add: bufferCount_or_available_def)
    then show ?thesis using pos [OF inv True] by simp
  next
    case False
    then have e: "d1 = fst (snd (TCPClient_available rdy status rcv d))"
        "go = (fst (TCPClient_available rdy status rcv d) \<noteq> 0)"
      using b by (auto simp: bufferCount_or_available_def Let_def split: prod.splits)
    have "bufferCount d1 \<noteq> 0"
      using e that available_inv(2) [OF inv cap rc, of rdy status] by simp
    moreover have "buffer_inv capacity d1"
      using e available_inv(1) [OF inv cap rc] by simp
    ultimately show ?thesis by (rule pos [rotated])
  qed
qed

lemma read_inv:
  assumes inv: "buffer_inv capacity d" and cap: "capacity < 65536" and rc: "recv_within_len rcv"
  shows "\<exists>r d' cs. TCPClient_read rdy status rcv d = Some (r, d', cs) \<and> buffer_inv capacity d'"
proof -
  obtain go d1 cs where b: "bufferCount_or_available rdy status rcv d = (go, d1, cs)"
    by (metis prod_cases3)
  note i = bufferCount_or_available_inv [OF inv cap rc b]
  show ?thesis
  proof (cases go)
    case True
    then have lt: "unat (d_offset d1) < unat (d_total d1)" by (rule i(2))
    then have "unat (d_offset d1) < length (d_buffer d1)"
      using i(1) by (simp add: buffer_inv_def arraySize_def)
    then have at: "buffer_at (d_buffer d1) (unat (d_offset d1))
                     = Some (d_buffer d1 ! unat (d_offset d1))"
      by (simp add: buffer_at_def)
    have "buffer_inv capacity (d1\<lparr> d_offset := d_offset d1 + 1 \<rparr>)"
      using i(1) lt unat_add_one16 [OF lt] by (simp add: buffer_inv_def)
    then show ?thesis using True by (simp add: TCPClient_read_def b at)
  next
    case False
    then show ?thesis using i(1) by (simp add: TCPClient_read_def b)
  qed
qed

lemma peek_inv:
  assumes inv: "buffer_inv capacity d" and cap: "capacity < 65536" and rc: "recv_within_len rcv"
  shows "\<exists>r d' cs. TCPClient_peek rdy status rcv d = Some (r, d', cs) \<and> buffer_inv capacity d'"
proof -
  obtain go d1 cs where b: "bufferCount_or_available rdy status rcv d = (go, d1, cs)"
    by (metis prod_cases3)
  note i = bufferCount_or_available_inv [OF inv cap rc b]
  show ?thesis
  proof (cases go)
    case True
    then have lt: "unat (d_offset d1) < unat (d_total d1)" by (rule i(2))
    then have "unat (d_offset d1) < length (d_buffer d1)"
      using i(1) by (simp add: buffer_inv_def arraySize_def)
    then have at: "buffer_at (d_buffer d1) (unat (d_offset d1))
                     = Some (d_buffer d1 ! unat (d_offset d1))"
      by (simp add: buffer_at_def)
    show ?thesis using True i(1) by (simp add: TCPClient_peek_def b at)
  next
    case False
    then show ?thesis using i(1) by (simp add: TCPClient_peek_def b)
  qed
qed

lemma stop_inv:
  "buffer_inv capacity d \<Longrightarrow> buffer_inv capacity (fst (TCPClient_stop d))"
  by (simp add: TCPClient_stop_def buffer_inv_def TCPClient_flush_buffer_def)

lemma connect_inv:
  assumes "buffer_inv capacity d"
  shows "buffer_inv capacity (fst (snd (TCPClient_connect rdy valid sr socket_res connect_ok ip port d)))"
proof -
  have a: "arraySize (d_buffer (fst (TCPClient_stop d))) = capacity"
    using assms by (simp add: TCPClient_stop_def buffer_inv_def TCPClient_flush_buffer_def)
  have s: "buffer_inv capacity (fst (TCPClient_stop d))" using assms by (rule stop_inv)
  show ?thesis
    using a s
    by (auto simp: TCPClient_connect_def Let_def buffer_inv_def TCPClient_flush_buffer_def
        TCPClient_stop_def split: prod.splits if_splits)
qed


lemma read_buf_inv:
  assumes inv: "buffer_inv capacity d" and cap: "capacity < 65536" and rc: "recv_within_len rcv"
  shows "\<exists>r bs d' cs. TCPClient_read_buf rdy status rcv sz d = Some (r, bs, d', cs)
           \<and> buffer_inv capacity d'"
proof -
  obtain go d1 cs where b: "bufferCount_or_available rdy status rcv d = (go, d1, cs)"
    by (metis prod_cases3)
  note i = bufferCount_or_available_inv [OF inv cap rc b]
  show ?thesis
  proof (cases go)
    case False
    then show ?thesis using i(1) by (simp add: TCPClient_read_buf_def b)
  next
    case True
    then have lt: "unat (d_offset d1) < unat (d_total d1)" by (rule i(2))
    define n where "n = (if sz > word_of_int (bufferCount d1) then bufferCount d1 else sint sz)"
    have tcap: "unat (d_total d1) \<le> capacity" and len: "length (d_buffer d1) = capacity"
      using i(1) by (simp_all add: buffer_inv_def arraySize_def)
    have bc: "bufferCount d1 = int (unat (d_total d1)) - int (unat (d_offset d1))"
      by (rule bufferCount_nat)
    have bc_pos: "0 < bufferCount d1" and bc_small: "bufferCount d1 < 65536"
      using lt tcap cap unfolding bc by linarith+
    have w: "uint (word_of_int (bufferCount d1) :: 32 word) = bufferCount d1"
      using bc_pos bc_small by (intro uint_word_of_int32) simp_all
    have n_range: "0 \<le> n \<and> n \<le> bufferCount d1"
    proof (cases "sz > word_of_int (bufferCount d1)")
      case True
      then show ?thesis using bc_pos by (simp add: n_def)
    next
      case False
      then have "uint sz \<le> bufferCount d1"
        using w by (simp add: word_less_def not_less)
      moreover from this have "sint sz = uint sz"
        using bc_small by (intro sint_small32) linarith
      ultimately show ?thesis using False by (simp add: n_def)
    qed
    then have n_nat: "unat (d_offset d1) + nat n \<le> unat (d_total d1)"
      unfolding bc by linarith
    then have inb: "unat (d_offset d1) + nat n \<le> length (d_buffer d1)"
      using tcap len by linarith
    have "int (unat (d_offset d1)) + n < 65536"
      using n_range tcap cap unfolding bc by linarith
    then have u: "unat (d_offset d1 + word_of_int n) = unat (d_offset d1) + nat n"
      using n_range by (intro unat_add_of_int16) simp_all
    have "buffer_inv capacity (d1\<lparr> d_offset := d_offset d1 + word_of_int n \<rparr>)"
      using i(1) n_nat u by (simp add: buffer_inv_def)
    then show ?thesis
      using True inb n_range
      by (simp add: TCPClient_read_buf_def b n_def [symmetric] Let_def)
  qed
qed

lemma connect_host_inv:
  assumes "buffer_inv capacity d"
  shows "buffer_inv capacity
           (fst (snd (TCPClient_connect_host alloc dns_sr winRes resolved halIpAddress
                        valid sr socket_res connect_ok host port eth d)))"
proof -
  have s: "buffer_inv capacity (fst (TCPClient_stop d))" using assms by (rule stop_inv)
  have c: "buffer_inv capacity d1"
    if "TCPClient_connect rdy valid sr socket_res connect_ok ip port (fst (TCPClient_stop d)) = (r, d1, cs)"
    for rdy ip r d1 cs
    using connect_inv [OF s, of rdy valid sr socket_res connect_ok ip port] that by simp
  show ?thesis
    using s c
    by (auto simp: TCPClient_connect_host_def Let_def split: prod.splits)
qed

text \<open>
  Claim C8. A new connection state satisfies \<open>offset \<le> total \<le> capacity\<close>, and
  every operation on it preserves the invariant, for every capacity that the 16-bit
  cursors can count (2048 among them) and a \<open>recv\<close> that returns no more than it was
  asked for: \<open>flush_buffer\<close> sets both cursors to zero; \<open>available()\<close> leaves
  \<open>total\<close> within the capacity; \<open>read()\<close>, \<open>read(buffer, size)\<close> and \<open>peek()\<close>
  return (they do not read outside the array) and leave \<open>offset \<le> total\<close>;
  \<open>stop\<close> and both overloads of \<open>connect\<close> preserve it as well.
\<close>

theorem buffer_invariant_preserved:
  assumes inv: "buffer_inv capacity d" and cap: "capacity < 65536" and rc: "recv_within_len rcv"
  shows "buffer_inv capacity (Data_new capacity sock)
    \<and> buffer_inv capacity (TCPClient_flush_buffer d)
    \<and> d_offset (TCPClient_flush_buffer d) = 0 \<and> d_total (TCPClient_flush_buffer d) = 0
    \<and> buffer_inv capacity (fst (snd (TCPClient_available rdy status rcv d)))
    \<and> (\<exists>r d' cs. TCPClient_read rdy status rcv d = Some (r, d', cs) \<and> buffer_inv capacity d')
    \<and> (\<exists>r bs d' cs. TCPClient_read_buf rdy status rcv sz d = Some (r, bs, d', cs)
           \<and> buffer_inv capacity d')
    \<and> (\<exists>r d' cs. TCPClient_peek rdy status rcv d = Some (r, d', cs) \<and> buffer_inv capacity d')
    \<and> buffer_inv capacity (fst (TCPClient_stop d))
    \<and> buffer_inv capacity
          (fst (snd (TCPClient_connect rdy valid sr socket_res connect_ok ip port d)))
    \<and> buffer_inv capacity
          (fst (snd (TCPClient_connect_host alloc dns_sr winRes resolved halIpAddress
                       valid sr socket_res connect_ok host port eth d)))"
proof -
  have new: "buffer_inv capacity (Data_new capacity sock)"
    by (simp add: buffer_inv_def Data_new_def arraySize_def)
  have size: "arraySize (d_buffer d) = capacity" using inv by (simp add: buffer_inv_def)
  have zero: "d_offset (TCPClient_flush_buffer d) = 0 \<and> d_total (TCPClient_flush_buffer d) = 0"
    by (simp add: TCPClient_flush_buffer_def)
  show ?thesis
    using new flush_buffer_inv [OF size] zero available_inv(1) [OF inv cap rc, of rdy status]
      read_inv [OF inv cap rc, of rdy status] read_buf_inv [OF inv cap rc, of rdy status sz]
      peek_inv [OF inv cap rc, of rdy status] stop_inv [OF inv]
      connect_inv [OF inv, of rdy valid sr socket_res connect_ok ip port]
      connect_host_inv [OF inv, of alloc dns_sr winRes resolved halIpAddress valid sr socket_res
        connect_ok host port eth]
    by blast
qed

text \<open>
  At the buffer of 2048 bytes holding one unread byte, with a \<open>recv\<close> that delivers one
  byte when asked for any.
\<close>

theorem buffer_invariant_preserved_witness:
  "buffer_inv 2048 client_one_byte \<and> (2048::nat) < 65536 \<and> recv_within_len recv_one
    \<and> buffer_inv 2048 (fst (snd (TCPClient_available True SOCK_ESTABLISHED recv_one client_one_byte)))
    \<and> (\<exists>r d' cs. TCPClient_read True SOCK_ESTABLISHED recv_one client_one_byte = Some (r, d', cs)
           \<and> buffer_inv 2048 d')
    \<and> (\<exists>r bs d' cs. TCPClient_read_buf True SOCK_ESTABLISHED recv_one 100 client_one_byte
             = Some (r, bs, d', cs) \<and> buffer_inv 2048 d')
    \<and> buffer_inv 2048 (fst (TCPClient_stop client_one_byte))"
proof -
  have inv: "buffer_inv 2048 client_one_byte"
    by (simp add: buffer_inv_def client_one_byte_def Data_new_def arraySize_def)
  have cap: "(2048::nat) < 65536" by simp
  have rc: "recv_within_len recv_one" by (simp add: recv_within_len_def recv_one_def)
  show ?thesis
    using inv cap rc
      buffer_invariant_preserved [OF inv cap rc, of 0 True SOCK_ESTABLISHED 100]
    by blast
qed

section \<open>inet_gethostbyname\<close>

lemma first_lookup_value:
  "first_lookup =
     (0, (93, 184, 216, 34), eth_boot\<lparr> dnsBuffer := Some 100 \<rparr>,
      [Heap_new (Some 100), Call_DNS_init 0 (Some 100), Call_DNS_run (0, 0, 0, 0) ''example.com'',
       Heap_delete (Some 100)])"
  by (simp add: first_lookup_def inet_gethostbyname_def inet_gethostbyname_query_def
      socketGetFree_all_closed eth_boot_def sn_of_def Let_def)

lemma second_lookup_value:
  "second_lookup =
     (0, (93, 184, 216, 34), eth_boot\<lparr> dnsBuffer := Some 100 \<rparr>,
      [Call_DNS_init 0 (Some 100), Call_DNS_run (0, 0, 0, 0) ''example.com'',
       Heap_delete (Some 100)])"
  by (simp add: second_lookup_def first_lookup_value inet_gethostbyname_def
      inet_gethostbyname_query_def socketGetFree_all_closed eth_boot_def sn_of_def Let_def)

text \<open>
  Claim C9 says that every lookup releases its scratch buffer before it returns. The
  code at two lookups in a row: the first allocates the block 100, uses it and deletes
  it, but leaves \<open>dnsBuffer\<close> pointing to it; the second finds \<open>dnsBuffer\<close> not null,
  allocates nothing, hands the freed block to \<open>DNS_init\<close> and deletes it a second
  time.
\<close>

theorem second_lookup_frees_freed_buffer:
  "fst first_lookup = 0
   \<and> heap_replay [] (snd (snd (snd first_lookup))) = Some []
   \<and> dnsBuffer (fst (snd (snd first_lookup))) = Some 100
   \<and> snd (snd (snd second_lookup)) =
        [Call_DNS_init 0 (Some 100), Call_DNS_run (0, 0, 0, 0) ''example.com'',
         Heap_delete (Some 100)]
   \<and> heap_replay [] (snd (snd (snd first_lookup)) @ snd (snd (snd second_lookup))) = None"
  by (simp add: first_lookup_value second_lookup_value)

text \<open>What of the claim holds at every call.\<close>

lemma inet_gethostbyname_result:
  "fst (inet_gethostbyname alloc sr winRes resolved hostname out_ip_addr s) =
     (if (dnsBuffer s \<noteq> None \<or> alloc \<noteq> None) \<and> 0 \<le> socketGetFree sr \<and> winRes = 1
      then 0 else -1)"
  by (simp add: inet_gethostbyname_def inet_gethostbyname_query_def Let_def split: prod.splits)

lemma inet_gethostbyname_first_call_releases:
  assumes "dnsBuffer s = None" "alloc = Some a" "a \<notin> set live"
  shows "heap_replay live (snd (snd (snd (inet_gethostbyname alloc sr winRes resolved hostname
           out_ip_addr s)))) = Some live"
  using assms
  by (simp add: inet_gethostbyname_def inet_gethostbyname_query_def Let_def split: prod.splits)

section \<open>Switching back to DHCP\<close>






end
